theory Spec2Isabelle
  imports Complex_Main "HOL-Library.Char_ord" "HOL-Library.List_Lexorder"
begin

text \<open>
  A shallow embedding of \<open>Code.js\<close>, the script that turns a table of invoice lines
  into one report per brand.  The embedding starts where the table has been read
  (\<open>data\<close>) and covers the header check, the normalization of the rows, the grouping
  by brand, invoice and order number, the totals, the classification of the rows of
  an order and the markup of the item table and the totals.  Prompting, reading from
  Drive, the progress log, the substitution into the template and the conversion to
  PDF belong to the host and are left out.
\<close>

section \<open>Numbers\<close>

text \<open>
  The script computes with JavaScript Numbers, the IEEE 754 binary64 values.  A finite
  Number is embedded as the rational it denotes; negative zero is identified with
  zero (the script never divides by a computed value, and \<open>toFixed\<close>, \<open>< 0\<close> and the
  truth test treat both zeros alike).  Every arithmetic operation gives the exact
  result rounded to the nearest Number, a tie going to the even significand (\<open>fl\<close>).
\<close>

datatype number = Fin rat | NaN | PosInf | NegInf

text \<open>\<open>ilog2 n\<close> is the integer part of the binary logarithm of \<open>n \<ge> 1\<close>.\<close>

function ilog2 :: "int \<Rightarrow> int" where
  "ilog2 n = (if n < 2 then 0 else 1 + ilog2 (n div 2))"
  by pat_completeness auto
termination
  by (relation "measure nat") auto

declare ilog2.simps [simp del]

text \<open>The integer part of the binary logarithm of a positive rational.\<close>

definition floor_log2 :: "rat \<Rightarrow> int" where
  "floor_log2 x = (if 1 \<le> x then ilog2 \<lfloor>x\<rfloor> else - (ilog2 (\<lceil>1 / x\<rceil> - 1) + 1))"

definition pow2 :: "int \<Rightarrow> rat" where
  "pow2 e = (if 0 \<le> e then 2 ^ nat e else 1 / 2 ^ nat (- e))"

text \<open>The nearest integer, the even one of two equally near.\<close>

definition round_even :: "rat \<Rightarrow> int" where
  "round_even r =
     (let f = \<lfloor>r\<rfloor>; d = r - of_int f
      in if d < 1 / 2 then f else if 1 / 2 < d then f + 1 else if even f then f else f + 1)"

text \<open>
  The Number nearest to a rational.  The Numbers around \<open>x\<close> are the multiples of
  \<open>2^e\<close>, where \<open>e\<close> leaves 53 bits to the significand and is at least \<open>-1074\<close>
  (the subnormal range); a result of magnitude \<open>2^1024\<close> or more is an infinity.
\<close>

definition fl :: "rat \<Rightarrow> number" where
  "fl x =
     (if x = 0 then Fin 0
      else
        let e = max (floor_log2 \<bar>x\<bar> - 52) (- 1074);
            y = of_int (round_even (\<bar>x\<bar> / pow2 e)) * pow2 e
        in if y \<noteq> 0 \<and> 1024 \<le> floor_log2 y then (if 0 < x then PosInf else NegInf)
           else Fin (if 0 < x then y else - y))"

text \<open>The value of a decimal literal of the script that denotes a finite Number.\<close>

definition lit :: "rat \<Rightarrow> rat" where
  "lit d = (case fl d of Fin y \<Rightarrow> y | _ \<Rightarrow> 0)"

fun nneg :: "number \<Rightarrow> number" where
  "nneg (Fin a) = Fin (- a)"
| "nneg NaN = NaN"
| "nneg PosInf = NegInf"
| "nneg NegInf = PosInf"

text \<open>The sign of an infinite factor times a finite one; zero times infinity is \<open>NaN\<close>.\<close>

definition inf_times :: "bool \<Rightarrow> rat \<Rightarrow> number" where
  "inf_times pos a =
     (if a = 0 then NaN else if (0 < a) = pos then PosInf else NegInf)"

fun nmul :: "number \<Rightarrow> number \<Rightarrow> number" where
  "nmul (Fin a) (Fin b) = fl (a * b)"
| "nmul NaN _ = NaN"
| "nmul _ NaN = NaN"
| "nmul PosInf (Fin b) = inf_times True b"
| "nmul NegInf (Fin b) = inf_times False b"
| "nmul (Fin a) PosInf = inf_times True a"
| "nmul (Fin a) NegInf = inf_times False a"
| "nmul PosInf PosInf = PosInf"
| "nmul PosInf NegInf = NegInf"
| "nmul NegInf PosInf = NegInf"
| "nmul NegInf NegInf = PosInf"

fun nadd :: "number \<Rightarrow> number \<Rightarrow> number" where
  "nadd (Fin a) (Fin b) = fl (a + b)"
| "nadd NaN _ = NaN"
| "nadd _ NaN = NaN"
| "nadd PosInf NegInf = NaN"
| "nadd NegInf PosInf = NaN"
| "nadd PosInf _ = PosInf"
| "nadd NegInf _ = NegInf"
| "nadd _ PosInf = PosInf"
| "nadd _ NegInf = NegInf"

definition nsub :: "number \<Rightarrow> number \<Rightarrow> number" where
  "nsub a b = nadd a (nneg b)"

text \<open>
  Division occurs in the script only with the positive literals \<open>1.2\<close> and
  \<open>Math.pow(10, 2)\<close> as divisor, so the divisor is the value of a positive finite
  Number.
\<close>

fun ndivc :: "number \<Rightarrow> rat \<Rightarrow> number" where
  "ndivc (Fin a) c = fl (a / c)"
| "ndivc x c = x"

text \<open>\<open>x < 0\<close>: every comparison with \<open>NaN\<close> is false.\<close>

fun nlt0 :: "number \<Rightarrow> bool" where
  "nlt0 (Fin a) = (a < 0)"
| "nlt0 NegInf = True"
| "nlt0 _ = False"

fun Math_abs :: "number \<Rightarrow> number" where
  "Math_abs (Fin a) = Fin \<bar>a\<bar>"
| "Math_abs NaN = NaN"
| "Math_abs _ = PosInf"

text \<open>
  \<open>Math.round\<close> returns the integer closest to its argument, and of two equally close
  integers the one nearer to plus infinity.  That integer is a Number: a Number of
  magnitude \<open>2^52\<close> or more is an integer itself.
\<close>

fun Math_round :: "number \<Rightarrow> number" where
  "Math_round (Fin a) = Fin (of_int \<lfloor>a + 1 / 2\<rfloor>)"
| "Math_round x = x"

text \<open>
  \<open>roundToNearest(value, decimals = 2)\<close>; every call in the script leaves \<open>decimals\<close>
  at its default, and \<open>Math.pow(10, 2)\<close> is \<open>100\<close>.
\<close>

definition roundToNearest :: "number \<Rightarrow> number" where
  "roundToNearest v = ndivc (Math_round (nmul v (Fin (10 ^ 2)))) (10 ^ 2)"

section \<open>Strings\<close>

text \<open>
  A string is a list of code units; \<^typ>\<open>char\<close> has eight bits, so the embedding covers
  the code units \<open>U+0000\<close> to \<open>U+00FF\<close>.
\<close>

definition is_digit :: "char \<Rightarrow> bool" where
  "is_digit c = (48 \<le> (of_char c :: nat) \<and> (of_char c :: nat) \<le> 57)"

text \<open>White space and line terminators, as \<open>trim\<close> and \<open>parseFloat\<close> skip them.\<close>

definition is_ws :: "char \<Rightarrow> bool" where
  "is_ws c = ((of_char c :: nat) \<in> {9, 10, 11, 12, 13, 32, 160})"

definition trim :: "string \<Rightarrow> string" where
  "trim s = rev (dropWhile is_ws (rev (dropWhile is_ws s)))"

definition lower_char :: "char \<Rightarrow> char" where
  "lower_char c =
     (let n = (of_char c :: nat)
      in if (65 \<le> n \<and> n \<le> 90) \<or> (192 \<le> n \<and> n \<le> 222 \<and> n \<noteq> 215)
         then char_of (n + 32) else c)"

definition toLowerCase :: "string \<Rightarrow> string" where
  "toLowerCase s = map lower_char s"

fun startsWith :: "string \<Rightarrow> string \<Rightarrow> bool" where
  "startsWith s [] = True"
| "startsWith [] (c # t) = False"
| "startsWith (d # s) (c # t) = (d = c \<and> startsWith s t)"

text \<open>\<open>s.includes(t)\<close>: \<open>t\<close> occurs in \<open>s\<close> as a contiguous run.\<close>

fun includes_str :: "string \<Rightarrow> string \<Rightarrow> bool" where
  "includes_str [] t = (t = [])"
| "includes_str (c # s) t = (startsWith (c # s) t \<or> includes_str s t)"

text \<open>\<open>a || b\<close> on strings: the empty string is the only falsy string.\<close>

definition or_else :: "string \<Rightarrow> string \<Rightarrow> string" where
  "or_else a b = (if a \<noteq> [] then a else b)"

text \<open>The value of a run of decimal digits.\<close>

definition digits_val :: "string \<Rightarrow> int" where
  "digits_val s = foldl (\<lambda>n c. 10 * n + (of_char c - 48)) 0 s"

text \<open>The decimal digits of a non-negative integer, without leading zeros.\<close>

function digits_of :: "int \<Rightarrow> string" where
  "digits_of n =
     (if n < 10 then [char_of (48 + n)]
      else digits_of (n div 10) @ [char_of (48 + n mod 10)])"
  by pat_completeness auto
termination
  by (relation "measure nat") auto

declare digits_of.simps [simp del]

section \<open>Parsing and printing numbers\<close>

text \<open>
  The exponent part \<open>e\<close> or \<open>E\<close>, an optional sign and at least one digit, at the
  front of the string; when the front is not of that shape the longest numeric prefix
  ends before it and the exponent is \<open>0\<close>.
\<close>

definition exponent_of :: "string \<Rightarrow> int" where
  "exponent_of r =
     (case r of
        [] \<Rightarrow> 0
      | c # r1 \<Rightarrow>
          if c = CHR ''e'' \<or> c = CHR ''E'' then
            (case r1 of
               [] \<Rightarrow> 0
             | d # r2 \<Rightarrow>
                 if d = CHR ''-'' then - digits_val (takeWhile is_digit r2)
                 else if d = CHR ''+'' then digits_val (takeWhile is_digit r2)
                 else digits_val (takeWhile is_digit r1))
          else 0)"

definition scale10 :: "rat \<Rightarrow> int \<Rightarrow> rat" where
  "scale10 m e = (if 0 \<le> e then m * 10 ^ nat e else m / 10 ^ nat (- e))"

text \<open>
  \<open>parseFloat\<close>: skip leading white space, then read the longest prefix that is a
  decimal literal (sign, \<open>Infinity\<close> or digits with an optional fraction and exponent);
  \<open>NaN\<close> when there is no such prefix, and otherwise the Number nearest to the
  value of the literal.
\<close>

definition parseFloat :: "string \<Rightarrow> number" where
  "parseFloat input =
     (let s = dropWhile is_ws input;
          neg = startsWith s ''-'';
          s1 = (if startsWith s ''-'' \<or> startsWith s ''+'' then tl s else s)
      in if startsWith s1 ''Infinity'' then (if neg then NegInf else PosInf)
         else
           let ip = takeWhile is_digit s1;
               r1 = dropWhile is_digit s1;
               fp = (if startsWith r1 ''.'' then takeWhile is_digit (tl r1) else []);
               r2 = (if startsWith r1 ''.'' then dropWhile is_digit (tl r1) else r1)
           in if ip = [] \<and> fp = [] then NaN
              else
                let m = scale10 (of_int (digits_val (ip @ fp)) / 10 ^ length fp)
                          (exponent_of r2)
                in fl (if neg then - m else m))"

text \<open>
  \<open>x.toFixed(2)\<close>.  Non-finite values print by name.  Otherwise the sign is split off,
  and a magnitude of \<open>10^21\<close> or more is printed by the host's \<open>Number::toString\<close>
  (the parameter \<open>nts\<close>); a smaller one is printed as the integer \<open>n\<close> nearest to a
  hundred times the magnitude (the larger of two equally near), with a point before
  its last two digits.
\<close>

definition toFixed :: "(number \<Rightarrow> string) \<Rightarrow> number \<Rightarrow> string" where
  "toFixed nts v =
     (case v of
        NaN \<Rightarrow> ''NaN''
      | PosInf \<Rightarrow> ''Infinity''
      | NegInf \<Rightarrow> ''-Infinity''
      | Fin x \<Rightarrow>
          let s = (if x < 0 then ''-'' else []);
              a = \<bar>x\<bar>
          in if 10 ^ 21 \<le> a then s @ nts (Fin a)
             else
               let n = \<lfloor>a * 100 + 1 / 2\<rfloor>;
                   m0 = digits_of n;
                   m = (if length m0 \<le> 2 then replicate (3 - length m0) CHR ''0'' @ m0
                        else m0);
                   k = length m
               in s @ take (k - 2) m @ ''.'' @ drop (k - 2) m)"

section \<open>The input table\<close>

text \<open>
  A cell of the input table.  A table parsed from CSV text holds strings only; a table
  read from a spreadsheet holds typed values.  \<open>Undefined\<close> is a missing cell; \<open>Obj s\<close>
  is any other object (a date), which is truthy and whose \<open>toString()\<close> is \<open>s\<close>.
\<close>

datatype cell = Undefined | Str string | Num number | Boolean bool | Obj string

fun truthy :: "cell \<Rightarrow> bool" where
  "truthy Undefined = False"
| "truthy (Str s) = (s \<noteq> [])"
| "truthy (Num n) = (n \<noteq> Fin 0 \<and> n \<noteq> NaN)"
| "truthy (Boolean b) = b"
| "truthy (Obj s) = True"

text \<open>
  The ways in which a run ends without reports.  With \<open>HeadersNotAsExpected\<close> the
  script logs that message and returns; \<open>TypeError\<close> is an exception, which the
  \<open>catch\<close> around the run turns into an error message.  \<open>PrototypeWrite\<close> is not
  an outcome of the script: it marks the one point where the embedding stops
  following the script, a row whose brand key is \<open>__proto__\<close> (see \<open>group_rows\<close>).
\<close>

datatype abort =
    HeadersNotAsExpected
  | TypeError
  | PrototypeWrite

text \<open>\<open>c.toString()\<close>; calling it on \<open>undefined\<close> throws.\<close>

fun cell_toString :: "(number \<Rightarrow> string) \<Rightarrow> cell \<Rightarrow> abort + string" where
  "cell_toString nts Undefined = Inl TypeError"
| "cell_toString nts (Str s) = Inr s"
| "cell_toString nts (Num n) = Inr (nts n)"
| "cell_toString nts (Boolean b) = Inr (if b then ''true'' else ''false'')"
| "cell_toString nts (Obj s) = Inr s"

text \<open>\<open>data[0].map(h => h.toString().trim())\<close>\<close>

fun header_cells :: "(number \<Rightarrow> string) \<Rightarrow> cell list \<Rightarrow> abort + string list" where
  "header_cells nts [] = Inr []"
| "header_cells nts (h # hs) =
     (case cell_toString nts h of
        Inl e \<Rightarrow> Inl e
      | Inr s \<Rightarrow>
          (case header_cells nts hs of
             Inl e \<Rightarrow> Inl e
           | Inr ss \<Rightarrow> Inr (trim s # ss)))"

text \<open>The header names the validation looks for, and the check the run depends on.\<close>

definition required :: "string list" where
  "required =
     [''*contactname'', ''contactname'',
      ''*invoicenumber'', ''invoicenumber'',
      ''description'',
      ''*quantity'', ''quantity'',
      ''*unitamount'', ''unitamount'',
      ''taxamount'',
      ''gross'']"

definition headerSet :: "string list \<Rightarrow> string set" where
  "headerSet headers = set (map toLowerCase headers)"

definition hasRequired :: "string list \<Rightarrow> bool" where
  "hasRequired headers = list_ex (\<lambda>r. r \<in> headerSet headers) required"

definition basicOk :: "string list \<Rightarrow> bool" where
  "basicOk headers =
     ((''*contactname'' \<in> headerSet headers \<or> ''contactname'' \<in> headerSet headers)
      \<and> (''*invoicenumber'' \<in> headerSet headers \<or> ''invoicenumber'' \<in> headerSet headers)
      \<and> ''description'' \<in> headerSet headers
      \<and> (''*quantity'' \<in> headerSet headers \<or> ''quantity'' \<in> headerSet headers)
      \<and> (''*unitamount'' \<in> headerSet headers \<or> ''unitamount'' \<in> headerSet headers)
      \<and> ''taxamount'' \<in> headerSet headers)"

text \<open>
  A row object: its own properties in the order of their creation.  Assigning to an
  existing key replaces the value and keeps the key's place.  Assigning a string to the
  key \<open>__proto__\<close> of an object leaves the object as it was.
\<close>

type_synonym row = "(string \<times> string) list"

fun assign :: "string \<Rightarrow> 'v \<Rightarrow> (string \<times> 'v) list \<Rightarrow> (string \<times> 'v) list" where
  "assign k v [] = [(k, v)]"
| "assign k v ((k', v') # kvs) =
     (if k = k' then (k', v) # kvs else (k', v') # assign k v kvs)"

text \<open>\<open>row[i]\<close>, which is \<open>undefined\<close> beyond the end of the row.\<close>

definition cell_at :: "cell list \<Rightarrow> nat \<Rightarrow> cell" where
  "cell_at r i = (if i < length r then r ! i else Undefined)"

text \<open>
  \<open>row[i] ? row[i].toString().trim() : ''\<close>.  A truthy cell is not \<open>undefined\<close>, so
  its \<open>toString\<close> does not throw.
\<close>

definition cell_text :: "(number \<Rightarrow> string) \<Rightarrow> cell \<Rightarrow> string" where
  "cell_text nts c =
     (if truthy c then (case cell_toString nts c of Inr s \<Rightarrow> trim s | Inl e \<Rightarrow> [])
      else [])"

definition normalize_row :: "(number \<Rightarrow> string) \<Rightarrow> string list \<Rightarrow> cell list \<Rightarrow> row" where
  "normalize_row nts headers r =
     foldl (\<lambda>obj (h, i).
              if h = ''__proto__'' then obj else assign h (cell_text nts (cell_at r i)) obj)
       [] (zip headers [0 ..< length headers])"

text \<open>
  \<open>row[k]\<close> for a literal key of the script, read where \<open>undefined\<close> and the empty
  string are both falsy: an absent key reads as the empty string.
\<close>

definition getProp :: "row \<Rightarrow> string \<Rightarrow> string" where
  "getProp r k = (case map_of r k of None \<Rightarrow> [] | Some v \<Rightarrow> v)"

section \<open>Objects and their key order\<close>

text \<open>
  The script groups with plain objects.  An object is embedded as the list of its own
  properties in the order of their creation.  \<open>Object.keys\<close> and \<open>Object.values\<close> do
  not follow that order for every key: keys that are array indices (the canonical
  decimal form of an integer below \<open>2^32 - 1\<close>) come first, in ascending numeric order,
  and the other keys follow in the order of their creation.
\<close>

definition is_array_index :: "string \<Rightarrow> bool" where
  "is_array_index s =
     (s \<noteq> [] \<and> list_all is_digit s \<and> (s = ''0'' \<or> hd s \<noteq> CHR ''0'')
      \<and> digits_val s < 2 ^ 32 - 1)"

definition Object_entries :: "(string \<times> 'v) list \<Rightarrow> (string \<times> 'v) list" where
  "Object_entries obj =
     sort_key (\<lambda>kv. digits_val (fst kv)) (filter (\<lambda>kv. is_array_index (fst kv)) obj)
     @ filter (\<lambda>kv. \<not> is_array_index (fst kv)) obj"

definition Object_keys :: "(string \<times> 'v) list \<Rightarrow> string list" where
  "Object_keys obj = map fst (Object_entries obj)"

definition Object_values :: "(string \<times> 'v) list \<Rightarrow> 'v list" where
  "Object_values obj = map snd (Object_entries obj)"

text \<open>
  Every object inherits the properties of \<open>Object.prototype\<close>, so \<open>obj[k]\<close> is truthy
  for these keys although \<open>obj\<close> has no such property of its own.  The value is a
  builtin function, except for \<open>__proto__\<close>, where it is \<open>Object.prototype\<close> itself.
\<close>

definition Object_prototype_names :: "string list" where
  "Object_prototype_names =
     [''constructor'', ''__defineGetter__'', ''__defineSetter__'', ''hasOwnProperty'',
      ''__lookupGetter__'', ''__lookupSetter__'', ''isPrototypeOf'',
      ''propertyIsEnumerable'', ''toString'', ''valueOf'', ''__proto__'',
      ''toLocaleString'']"

text \<open>
  The properties every builtin function has: \<open>length\<close> and \<open>name\<close> of its own and the
  members of \<open>Function.prototype\<close>.  Reading \<open>arguments\<close> or \<open>caller\<close> of a builtin
  function throws; the other values are a number, a string or a function.
\<close>

definition Function_names :: "string list" where
  "Function_names =
     [''length'', ''name'', ''arguments'', ''caller'', ''constructor'', ''apply'', ''bind'',
      ''call'', ''toString'']"

text \<open>
  \<open>builtin[k]\<close> is defined (or throws), where \<open>builtin\<close> is the function that an object
  inherits under the key \<open>b\<close>.  Under \<open>constructor\<close> that function is \<open>Object\<close>, which
  has the static methods and \<open>prototype\<close> in addition; their names depend on the
  version of the host and are the parameter \<open>statics\<close>.
\<close>

definition builtin_has :: "string list \<Rightarrow> string \<Rightarrow> string \<Rightarrow> bool" where
  "builtin_has statics b k =
     (k \<in> set Function_names \<or> k \<in> set Object_prototype_names
      \<or> (b = ''constructor'' \<and> k \<in> set statics))"

text \<open>\<open>if (!obj[k]) obj[k] = []; obj[k].push(x)\<close> for a key that is not inherited.\<close>

fun push_at :: "string \<Rightarrow> 'a \<Rightarrow> (string \<times> 'a list) list \<Rightarrow> (string \<times> 'a list) list" where
  "push_at k x [] = [(k, [x])]"
| "push_at k x ((k', xs) # obj) =
     (if k = k' then (k', xs @ [x]) # obj else (k', xs) # push_at k x obj)"

section \<open>Grouping by brand and invoice\<close>

type_synonym brand_data = "(string \<times> row list) list"

type_synonym brands = "(string \<times> brand_data) list"

text \<open>
  \<open>row['*ContactName'] || row[headers[0]] || 'Unknown Brand'\<close>.  The first header is a
  property of every row, except that a row has no own property \<open>__proto__\<close>: reading
  that key gives the prototype object, which is truthy and becomes the key
  \<open>[object Object]\<close>.
\<close>

definition header0 :: "string list \<Rightarrow> string" where
  "header0 headers = (case headers of [] \<Rightarrow> ''undefined'' | h # hs \<Rightarrow> h)"

definition brandOf :: "string list \<Rightarrow> row \<Rightarrow> string" where
  "brandOf headers r =
     or_else (getProp r ''*ContactName'')
       (if header0 headers = ''__proto__'' then ''[object Object]''
        else or_else (getProp r (header0 headers)) ''Unknown Brand'')"

definition invoiceNumOf :: "row \<Rightarrow> string" where
  "invoiceNumOf r =
     or_else (getProp r ''*InvoiceNumber'') (or_else (getProp r ''InvoiceNumber'') ''Unknown Invoice'')"

text \<open>
  \<open>if (!brands[brand]) brands[brand] = {}; if (!brands[brand][invoiceNum])
  brands[brand][invoiceNum] = []; brands[brand][invoiceNum].push(row)\<close>
  for keys that are not inherited.
\<close>

fun group_row :: "string \<Rightarrow> string \<Rightarrow> row \<Rightarrow> brands \<Rightarrow> brands" where
  "group_row b i r [] = [(b, [(i, [r])])]"
| "group_row b i r ((b', bd) # bs) =
     (if b = b' then (b', push_at i r bd) # bs else (b', bd) # group_row b i r bs)"

text \<open>
  The loop over the rows.

  For a brand key that is not inherited, \<open>brands[brand]\<close> is the brand's own object.
  An invoice key that is inherited makes \<open>brands[brand][invoiceNum]\<close> a builtin
  without \<open>push\<close>, and the call throws.

  For a brand key that is inherited and names a builtin function, \<open>brands[brand]\<close> is
  that function and \<open>brands\<close> gets no key.  When the function has a property under the
  invoice key, \<open>push\<close> is called on a number, a string or a function (or the read
  throws), which is a \<open>TypeError\<close>; otherwise the script stores the row in a new array
  property of the function, where nothing reads it again, and goes on.

  For the brand key \<open>__proto__\<close> the script stores the row in a new property of
  \<open>Object.prototype\<close>, which every object of the script and of the host inherits
  from then on; the embedding does not follow the script there and ends with
  \<open>PrototypeWrite\<close>.
\<close>

fun group_rows :: "string list \<Rightarrow> string list \<Rightarrow> row list \<Rightarrow> brands \<Rightarrow> abort + brands" where
  "group_rows statics headers [] bs = Inr bs"
| "group_rows statics headers (r # rs) bs =
     (let brand = brandOf headers r;
          invoiceNum = invoiceNumOf r
      in if brand \<in> set Object_prototype_names then
           (if brand = ''__proto__'' then
              (if invoiceNum \<in> set Object_prototype_names then Inl TypeError
               else Inl PrototypeWrite)
            else if builtin_has statics brand invoiceNum then Inl TypeError
            else group_rows statics headers rs bs)
         else if invoiceNum \<in> set Object_prototype_names then Inl TypeError
         else group_rows statics headers rs (group_row brand invoiceNum r bs))"

text \<open>
  The rows at which the loop goes on: the row neither makes the script throw nor has
  the brand key \<open>__proto__\<close>.
\<close>

definition row_passes :: "string list \<Rightarrow> string list \<Rightarrow> row \<Rightarrow> bool" where
  "row_passes statics headers r =
     (if brandOf headers r \<in> set Object_prototype_names
      then brandOf headers r \<noteq> ''__proto__''
           \<and> \<not> builtin_has statics (brandOf headers r) (invoiceNumOf r)
      else invoiceNumOf r \<notin> set Object_prototype_names)"

section \<open>One brand\<close>

text \<open>\<open>Object.values(brandData).flat()\<close>\<close>

definition allItemsOf :: "brand_data \<Rightarrow> row list" where
  "allItemsOf brandData = concat (Object_values brandData)"

text \<open>\<open>desc.match(/^#(\d+)/)\<close> and the order number taken from it.\<close>

definition orderNumOf :: "string \<Rightarrow> string" where
  "orderNumOf desc =
     (case desc of
        [] \<Rightarrow> ''Unknown''
      | c # rest \<Rightarrow>
          if c = CHR ''#'' \<and> takeWhile is_digit rest \<noteq> [] then takeWhile is_digit rest
          else ''Unknown'')"

definition itemsByOrderNumber :: "row list \<Rightarrow> (string \<times> row list) list" where
  "itemsByOrderNumber allItems =
     foldl (\<lambda>obj item. push_at (orderNumOf (getProp item ''Description'')) item obj) [] allItems"

text \<open>
  The three values every computation on a row starts from.  The last alternative of
  the unit amount is the number \<open>0\<close>, which \<open>parseFloat\<close> first converts to the string
  \<open>0\<close>.
\<close>

definition quantityOf :: "row \<Rightarrow> number" where
  "quantityOf r = parseFloat (or_else (getProp r ''*Quantity'') (or_else (getProp r ''Quantity'') ''1''))"

definition unitPriceOf :: "row \<Rightarrow> number" where
  "unitPriceOf r =
     parseFloat (or_else (getProp r ''*UnitAmount'') (or_else (getProp r ''UnitAmount'') ''0''))"

definition taxTypeOf :: "row \<Rightarrow> string" where
  "taxTypeOf r = getProp r ''*TaxType''"

definition subtotal :: "row list \<Rightarrow> number" where
  "subtotal allItems =
     foldl (\<lambda>sum r.
              let quantity = quantityOf r;
                  unitPrice = unitPriceOf r;
                  taxType = taxTypeOf r;
                  netAmount =
                    (if includes_str (toLowerCase taxType) ''no vat''
                     then roundToNearest (nmul unitPrice quantity)
                     else roundToNearest (ndivc (nmul unitPrice quantity) (lit (12 / 10))))
              in nadd sum netAmount)
       (Fin 0) allItems"

definition totalVat :: "row list \<Rightarrow> number" where
  "totalVat allItems =
     foldl (\<lambda>sum r.
              let quantity = quantityOf r;
                  unitPrice = unitPriceOf r;
                  taxType = taxTypeOf r;
                  vatAmount =
                    (if \<not> includes_str (toLowerCase taxType) ''no vat''
                     then let grossAmount = nmul unitPrice quantity;
                              netAmount = roundToNearest (ndivc grossAmount (lit (12 / 10)))
                          in roundToNearest (nsub grossAmount netAmount)
                     else Fin 0)
              in nadd sum vatAmount)
       (Fin 0) allItems"

definition totalGbp :: "row list \<Rightarrow> number" where
  "totalGbp allItems =
     foldl (\<lambda>sum r.
              let quantity = quantityOf r;
                  unitPrice = unitPriceOf r
              in nadd sum (roundToNearest (nmul unitPrice quantity)))
       (Fin 0) allItems"

section \<open>Rendering\<close>

definition nl :: string where
  "nl = [CHR 0x0A]"

definition dq :: string where
  "dq = [CHR 0x22]"

definition pound :: string where
  "pound = [CHR 0xA3]"

definition thStyle :: string where
  "thStyle = ''background-color: #f7f7f7; color: #333333; padding: 12px; border-bottom: 2px solid #dddddd; text-align: left; font-size: 12px; font-weight: bold; text-transform: uppercase;''"

definition tdStyle :: string where
  "tdStyle = ''padding: 12px; border-bottom: 1px solid #eeeeee;''"

definition tdNumberStyle :: string where
  "tdNumberStyle = tdStyle @ '' text-align: right;''"

definition formatAmount :: "(number \<Rightarrow> string) \<Rightarrow> number \<Rightarrow> string" where
  "formatAmount nts amount =
     (if nlt0 amount then ''('' @ toFixed nts (Math_abs amount) @ '')''
      else toFixed nts amount)"

definition renderRow :: "(number \<Rightarrow> string) \<Rightarrow> row \<Rightarrow> string" where
  "renderRow nts r =
     (let quantity = quantityOf r;
          unitPrice = unitPriceOf r;
          taxType = taxTypeOf r;
          noVat = includes_str (toLowerCase taxType) ''no vat'';
          netAmount =
            (if noVat then roundToNearest (nmul unitPrice quantity)
             else roundToNearest (ndivc (nmul unitPrice quantity) (lit (12 / 10))));
          vatRate = (if noVat then ''N/A'' else ''20%'');
          description = getProp r ''Description''
      in  nl @ ''        <tr>'' @ nl @ ''          <td style='' @ dq @ tdStyle @ dq @ ''>''
          @ description @ ''</td>'' @ nl @ ''          <td style='' @ dq @ tdNumberStyle
          @ dq @ ''>'' @ toFixed nts quantity @ ''</td>'' @ nl @ ''          <td style=''
          @ dq @ tdNumberStyle @ dq @ ''>'' @ toFixed nts unitPrice @ ''</td>'' @ nl
          @ ''          <td style='' @ dq @ tdNumberStyle @ dq @ ''>'' @ vatRate
          @ ''</td>'' @ nl @ ''          <td style='' @ dq @ tdNumberStyle @ dq @ ''>''
          @ formatAmount nts netAmount @ ''</td>'' @ nl @ ''        </tr>'')"

text \<open>
  \<open>/ship|post|postage|delivery|freight|shipping/i.test(s)\<close>.  Without the \<open>u\<close> flag a
  code unit outside ASCII never matches an ASCII letter of the pattern, so the test is
  an occurrence of one of the words in the lower-cased string.
\<close>

definition shippingRegex_test :: "string \<Rightarrow> bool" where
  "shippingRegex_test s =
     list_ex (includes_str (toLowerCase s))
       [''ship'', ''post'', ''postage'', ''delivery'', ''freight'', ''shipping'']"

definition discounts :: "row list \<Rightarrow> row list" where
  "discounts orderItems =
     filter (\<lambda>r.
               let d = toLowerCase (getProp r ''Description'');
                   quantity = quantityOf r
               in includes_str d ''discount'' \<or> nlt0 quantity)
       orderItems"

definition normal :: "row list \<Rightarrow> row list" where
  "normal orderItems =
     filter (\<lambda>r.
               let d = toLowerCase (getProp r ''Description'');
                   quantity = quantityOf r;
                   isDiscount = (includes_str d ''discount'' \<or> nlt0 quantity);
                   isShipping = shippingRegex_test (getProp r ''Description'')
               in \<not> isDiscount \<and> \<not> isShipping)
       orderItems"

definition shipping :: "row list \<Rightarrow> row list" where
  "shipping orderItems = filter (\<lambda>r. shippingRegex_test (getProp r ''Description'')) orderItems"

text \<open>\<open>Object.keys(itemsByOrderNumber).sort()\<close>: strings compare by their code units.\<close>

definition sortedOrderNumbers :: "(string \<times> row list) list \<Rightarrow> string list" where
  "sortedOrderNumbers byOrder = sort (Object_keys byOrder)"

text \<open>\<open>itemsByOrderNumber[orderNum]\<close> for a key taken from the object itself.\<close>

definition orderItemsOf :: "(string \<times> row list) list \<Rightarrow> string \<Rightarrow> row list" where
  "orderItemsOf byOrder orderNum = (case map_of byOrder orderNum of Some xs \<Rightarrow> xs | None \<Rightarrow> [])"

definition itemRowsHtml :: "(number \<Rightarrow> string) \<Rightarrow> (string \<times> row list) list \<Rightarrow> string" where
  "itemRowsHtml nts byOrder =
     foldl (\<lambda>html orderNum.
              let orderItems = orderItemsOf byOrder orderNum
              in html @ concat (map (renderRow nts) (discounts orderItems))
                 @ concat (map (renderRow nts) (normal orderItems))
                 @ concat (map (renderRow nts) (shipping orderItems)))
       [] (sortedOrderNumbers byOrder)"

text \<open>
  The rows in the order in which \<open>renderRow\<close> is applied to them while \<open>itemRowsHtml\<close>
  is built.
\<close>

definition renderedRows :: "(string \<times> row list) list \<Rightarrow> row list" where
  "renderedRows byOrder =
     concat (map (\<lambda>orderNum.
                    let orderItems = orderItemsOf byOrder orderNum
                    in discounts orderItems @ normal orderItems @ shipping orderItems)
               (sortedOrderNumbers byOrder))"

text \<open>
  The template literal \<open>invoicesHtml\<close>, cut at its five holes: the markup before the
  item rows, the markup up to the subtotal, and the markup that follows each of the
  three totals.
\<close>

definition itemsTableOpen :: string where
  "itemsTableOpen =
     nl @ ''        <!-- Items Table -->'' @ nl @ ''        <table width='' @ dq @ ''100%''
     @ dq @ '' border='' @ dq @ ''0'' @ dq @ '' cellspacing='' @ dq @ ''0'' @ dq
     @ '' cellpadding='' @ dq @ ''0'' @ dq @ '' style='' @ dq @ ''font-size: 13px;'' @ dq
     @ ''>'' @ nl @ ''          <thead>'' @ nl @ ''            <tr>'' @ nl
     @ ''              <th style='' @ dq @ thStyle @ dq @ ''>Description</th>'' @ nl
     @ ''              <th style='' @ dq @ thStyle @ '' text-align: right;'' @ dq
     @ ''>Quantity</th>'' @ nl @ ''              <th style='' @ dq @ thStyle
     @ '' text-align: right;'' @ dq @ ''>Unit Price</th>'' @ nl
     @ ''              <th style='' @ dq @ thStyle @ '' text-align: right;'' @ dq
     @ ''>VAT</th>'' @ nl @ ''              <th style='' @ dq @ thStyle
     @ '' text-align: right;'' @ dq @ ''>Net Amount GBP</th>'' @ nl @ ''            </tr>''
     @ nl @ ''          </thead>'' @ nl @ ''          <tbody>'' @ nl @ ''            ''"

definition itemsTableClose :: string where
  "itemsTableClose =
     nl @ ''          </tbody>'' @ nl @ ''        </table>'' @ nl @ nl
     @ ''        <!-- Totals Section -->'' @ nl @ ''        <table width='' @ dq @ ''100%''
     @ dq @ '' border='' @ dq @ ''0'' @ dq @ '' cellspacing='' @ dq @ ''0'' @ dq
     @ '' cellpadding='' @ dq @ ''0'' @ dq @ '' style='' @ dq @ ''margin-top: 20px;'' @ dq
     @ ''>'' @ nl @ ''          <tr>'' @ nl @ ''            <td align='' @ dq @ ''right''
     @ dq @ ''>'' @ nl @ ''              <table border='' @ dq @ ''0'' @ dq
     @ '' cellspacing='' @ dq @ ''0'' @ dq @ '' cellpadding='' @ dq @ ''5'' @ dq
     @ '' style='' @ dq @ ''width: 280px; font-size: 13px;'' @ dq @ ''>'' @ nl
     @ ''                <tr>'' @ nl @ ''                  <td style='' @ dq
     @ ''padding: 10px; text-align: right;'' @ dq @ ''>Subtotal</td>'' @ nl
     @ ''                  <td style='' @ dq @ ''padding: 10px; text-align: right;'' @ dq
     @ ''>''"

definition subtotalClose :: string where
  "subtotalClose =
     ''</td>'' @ nl @ ''                </tr>'' @ nl @ ''                <tr>'' @ nl
     @ ''                  <td style='' @ dq @ ''padding: 10px; text-align: right;'' @ dq
     @ ''>VAT (20%)</td>'' @ nl @ ''                  <td style='' @ dq
     @ ''padding: 10px; text-align: right;'' @ dq @ ''>''"

definition vatClose :: string where
  "vatClose =
     ''</td>'' @ nl @ ''                </tr>'' @ nl @ ''                <tr>'' @ nl
     @ ''                  <td style='' @ dq
     @ ''padding: 10px; text-align: right; background-color: #f7f7f7; font-weight: bold; border-top: 2px solid #dddddd;''
     @ dq @ ''>Total GBP</td>'' @ nl @ ''                  <td style='' @ dq
     @ ''padding: 10px; text-align: right; background-color: #f7f7f7; font-weight: bold; border-top: 2px solid #dddddd;''
     @ dq @ ''>''"

definition totalClose :: string where
  "totalClose =
     ''</td>'' @ nl @ ''                </tr>'' @ nl @ ''              </table>'' @ nl
     @ ''            </td>'' @ nl @ ''          </tr>'' @ nl @ ''        </table>'' @ nl
     @ ''      ''"

definition invoicesHtml ::
  "(number \<Rightarrow> string) \<Rightarrow> string \<Rightarrow> number \<Rightarrow> number \<Rightarrow> number \<Rightarrow> string" where
  "invoicesHtml nts rowsHtml sub vat gbp =
     itemsTableOpen @ rowsHtml @ itemsTableClose
     @ pound @ toFixed nts sub @ subtotalClose
     @ pound @ toFixed nts vat @ vatClose
     @ pound @ toFixed nts gbp @ totalClose"

section \<open>The run\<close>

text \<open>
  What the run produces for one brand.  \<open>html\<close> is the text put in place of
  \<open>{{INVOICES_HTML}}\<close>; filling the template and converting the result to a PDF are
  done by the host and are not part of the embedding.
\<close>

record brand_result =
  brand :: string
  invoiceNumbers :: "string list"
  html :: string
  fileName :: string

definition brandReport :: "(number \<Rightarrow> string) \<Rightarrow> string \<Rightarrow> brand_data \<Rightarrow> brand_result" where
  "brandReport nts b brandData =
     (let allItems = allItemsOf brandData;
          byOrder = itemsByOrderNumber allItems
      in \<lparr>brand = b,
          invoiceNumbers = Object_keys brandData,
          html = invoicesHtml nts (itemRowsHtml nts byOrder)
                   (subtotal allItems) (totalVat allItems) (totalGbp allItems),
          fileName = ''Invoice_'' @ b @ ''.pdf''\<rparr>)"

text \<open>\<open>brands[brand]\<close> for a key taken from \<open>brands\<close> itself.\<close>

definition brandDataOf :: "brands \<Rightarrow> string \<Rightarrow> brand_data" where
  "brandDataOf bs b = (case map_of bs b of Some bd \<Rightarrow> bd | None \<Rightarrow> [])"

text \<open>\<open>Object.keys(brands).map(brand => ...)\<close>\<close>

definition pdfResults :: "(number \<Rightarrow> string) \<Rightarrow> brands \<Rightarrow> brand_result list" where
  "pdfResults nts bs = map (\<lambda>b. brandReport nts b (brandDataOf bs b)) (Object_keys bs)"

text \<open>
  \<open>generateBrandReports\<close> from the point where the table \<open>data\<close> has been read.
  An empty table makes \<open>data[0].map\<close> throw; a header row that fails the check ends
  the run before the rows are read.  The parameters are the host's \<open>Number::toString\<close>
  and the names of the static properties of its \<open>Object\<close> function.
\<close>

definition generateBrandReports ::
  "(number \<Rightarrow> string) \<Rightarrow> string list \<Rightarrow> cell list list \<Rightarrow> abort + brand_result list" where
  "generateBrandReports nts statics data =
     (case data of
        [] \<Rightarrow> Inl TypeError
      | hrow # rest \<Rightarrow>
          (case header_cells nts hrow of
             Inl e \<Rightarrow> Inl e
           | Inr headers \<Rightarrow>
               if \<not> basicOk headers then Inl HeadersNotAsExpected
               else
                 let rows = map (normalize_row nts headers) rest
                 in (case group_rows statics headers rows [] of
                       Inl e \<Rightarrow> Inl e
                     | Inr bs \<Rightarrow> Inr (pdfResults nts bs))))"

section \<open>The words of the specification\<close>

text \<open>
  The rounding rule in the words of the specification: multiply by \<open>100\<close>, round half
  away from zero, divide by \<open>100\<close>.
\<close>

definition round_half_away :: "rat \<Rightarrow> rat" where
  "round_half_away x = sgn x * of_int \<lfloor>\<bar>x\<bar> + 1 / 2\<rfloor>"

fun half_away :: "number \<Rightarrow> number" where
  "half_away (Fin a) = Fin (round_half_away a)"
| "half_away x = x"

definition spec_round2 :: "number \<Rightarrow> number" where
  "spec_round2 v = ndivc (half_away (nmul v (Fin (10 ^ 2)))) (10 ^ 2)"

text \<open>
  A value whose hundredfold is negative and halfway between two integers: the only
  values on which \<open>Math.round\<close> and rounding half away from zero part.
\<close>

definition negative_tie :: "number \<Rightarrow> bool" where
  "negative_tie v =
     (case nmul v (Fin (10 ^ 2)) of Fin t \<Rightarrow> t < 0 \<and> frac t = 1 / 2 | _ \<Rightarrow> False)"

text \<open>
  The per-row amounts as the specification states them, with \<open>round2\<close> rounding half
  away from zero.
\<close>

definition grossRow :: "row \<Rightarrow> number" where
  "grossRow r = nmul (quantityOf r) (unitPriceOf r)"

definition noVat :: "row \<Rightarrow> bool" where
  "noVat r = includes_str (toLowerCase (taxTypeOf r)) ''no vat''"

definition spec_netRow :: "row \<Rightarrow> number" where
  "spec_netRow r =
     (if noVat r then spec_round2 (grossRow r)
      else spec_round2 (ndivc (grossRow r) (lit (12 / 10))))"

definition spec_vatRow :: "row \<Rightarrow> number" where
  "spec_vatRow r =
     (if noVat r then Fin 0 else spec_round2 (nsub (grossRow r) (spec_netRow r)))"

text \<open>The same amounts with the rounding of the script, \<open>roundToNearest\<close>.\<close>

definition netRow :: "row \<Rightarrow> number" where
  "netRow r =
     (if noVat r then roundToNearest (grossRow r)
      else roundToNearest (ndivc (grossRow r) (lit (12 / 10))))"

definition vatRow :: "row \<Rightarrow> number" where
  "vatRow r = (if noVat r then Fin 0 else roundToNearest (nsub (grossRow r) (netRow r)))"

text \<open>
  A row none of whose amounts to round is a negative tie: on such a row the rounding
  of the script and rounding half away from zero give the same amounts.
\<close>

definition tie_free :: "row \<Rightarrow> bool" where
  "tie_free r =
     (\<not> negative_tie (if noVat r then grossRow r else ndivc (grossRow r) (lit (12 / 10)))
      \<and> (noVat r \<or> \<not> negative_tie (nsub (grossRow r) (netRow r))))"

text \<open>
  The sum of a list of Numbers, added one after the other to \<open>0\<close>.  The order matters:
  the addition of Numbers is not associative.
\<close>

definition nsum :: "number list \<Rightarrow> number" where
  "nsum xs = foldl nadd (Fin 0) xs"

text \<open>
  An instance of the host's \<open>Number::toString\<close> for evaluating the embedding at
  concrete tables: non-finite values print by name and an integer below \<open>10^21\<close>
  prints as its decimal digits, as on the host.  No other number occurs where this
  instance is used.
\<close>

definition integer_toString :: "number \<Rightarrow> string" where
  "integer_toString v =
     (case v of
        NaN \<Rightarrow> ''NaN''
      | PosInf \<Rightarrow> ''Infinity''
      | NegInf \<Rightarrow> ''-Infinity''
      | Fin x \<Rightarrow> (if x < 0 then ''-'' else []) @ digits_of \<lfloor>\<bar>x\<bar>\<rfloor>)"

text \<open>
  An instance of the names of the static properties of \<open>Object\<close> (those of
  ECMAScript 2019), for evaluating the embedding at concrete tables.
\<close>

definition Object_statics :: "string list" where
  "Object_statics =
     [''prototype'', ''assign'', ''create'', ''defineProperties'', ''defineProperty'',
      ''entries'', ''freeze'', ''fromEntries'', ''getOwnPropertyDescriptor'',
      ''getOwnPropertyDescriptors'', ''getOwnPropertyNames'', ''getOwnPropertySymbols'',
      ''getPrototypeOf'', ''is'', ''isExtensible'', ''isFrozen'', ''isSealed'', ''keys'',
      ''preventExtensions'', ''seal'', ''setPrototypeOf'', ''values'']"

text \<open>
  The strings that start with a decimal literal: after white space and an optional
  sign comes \<open>Infinity\<close>, a digit, or a point followed by a digit.
\<close>

definition numeric_start :: "string \<Rightarrow> bool" where
  "numeric_start s =
     (let t = dropWhile is_ws s;
          u = (if startsWith t ''-'' \<or> startsWith t ''+'' then tl t else t)
      in startsWith u ''Infinity''
         \<or> (u \<noteq> [] \<and> is_digit (hd u))
         \<or> (startsWith u ''.'' \<and> tl u \<noteq> [] \<and> is_digit (hd (tl u))))"

text \<open>
  A header concept is recognized under a name when some header, lower-cased, is that
  name.
\<close>

definition recognized :: "string \<Rightarrow> string list \<Rightarrow> bool" where
  "recognized name headers = (\<exists>h \<in> set headers. toLowerCase h = name)"

text \<open>The elements of a list in the order of their first appearance.\<close>

fun first_seen :: "'a list \<Rightarrow> 'a list" where
  "first_seen [] = []"
| "first_seen (x # xs) = x # filter (\<lambda>y. y \<noteq> x) (first_seen xs)"

section \<open>Sample tables\<close>

text \<open>Two rows of one brand: one free of VAT and one at the standard rate.\<close>

definition novat_row :: row where
  "novat_row =
     [(''Description'', ''Gift card''), (''*Quantity'', ''3''), (''*UnitAmount'', ''9.99''),
      (''*TaxType'', ''No VAT'')]"

definition std_row :: row where
  "std_row =
     [(''Description'', ''#7 Mug''), (''*Quantity'', ''2''), (''*UnitAmount'', ''10''),
      (''*TaxType'', ''Standard'')]"

text \<open>A row whose gross amount is a negative tie at two decimals, free of VAT.\<close>

definition negative_tie_row :: row where
  "negative_tie_row =
     [(''Description'', ''Credit''), (''*Quantity'', ''-1''), (''*UnitAmount'', ''0.125''),
      (''*TaxType'', ''No VAT'')]"

text \<open>A row at the standard rate whose net amount is just under a tie.\<close>

definition cents_row :: row where
  "cents_row =
     [(''Description'', ''Sticker''), (''*Quantity'', ''1''), (''*UnitAmount'', ''0.69''),
      (''*TaxType'', ''Standard'')]"

text \<open>A row whose quantity and unit amount cells hold text that is not a number.\<close>

definition text_amounts_row :: row where
  "text_amounts_row =
     [(''Description'', ''Widget''), (''Quantity'', ''abc''), (''UnitAmount'', ''n/a'')]"

text \<open>A row whose quantity cell starts with a number.\<close>

definition two_boxes_row :: row where
  "two_boxes_row = [(''Description'', ''Widget''), (''Quantity'', ''2 boxes'')]"

text \<open>
  A spreadsheet row whose quantity and unit amount cells hold the number zero, and the
  same row as CSV text.
\<close>

definition amount_headers :: "string list" where
  "amount_headers = [''*ContactName'', ''*Quantity'', ''*UnitAmount'']"

definition zero_cells :: "cell list" where
  "zero_cells = [Str ''Acme'', Num (Fin 0), Num (Fin 0)]"

definition zero_texts :: "cell list" where
  "zero_texts = [Str ''Acme'', Str ''0'', Str ''0'']"

text \<open>A header row that names every required column with a star.\<close>

definition starred_headers :: "string list" where
  "starred_headers =
     [''*ContactName'', ''*InvoiceNumber'', ''*Description'', ''*Quantity'',
      ''*UnitAmount'', ''*TaxAmount'']"

text \<open>A header row in capitals, with the stars where the check allows them.\<close>

definition capital_headers :: "string list" where
  "capital_headers =
     [''*CONTACTNAME'', ''INVOICENUMBER'', ''DESCRIPTION'', ''*QUANTITY'', ''UNITAMOUNT'',
      ''TAXAMOUNT'']"

definition no_description_headers :: "string list" where
  "no_description_headers =
     [''ContactName'', ''InvoiceNumber'', ''Quantity'', ''UnitAmount'', ''TaxAmount'']"

text \<open>A refund: one row with a negative quantity at the standard rate.\<close>

definition refund_row :: row where
  "refund_row =
     [(''Description'', ''Refund''), (''*Quantity'', ''-1''), (''*UnitAmount'', ''10''),
      (''*TaxType'', ''Standard'')]"

text \<open>A row that is a discount and names shipping.\<close>

definition shipping_discount_row :: row where
  "shipping_discount_row =
     [(''Description'', ''#1 Shipping discount''), (''*Quantity'', ''1''),
      (''*UnitAmount'', ''-5''), (''*TaxType'', ''Standard'')]"

text \<open>The rows of one order in the three kinds, and rows with several order numbers.\<close>

definition mug_row :: row where
  "mug_row = [(''Description'', ''#10 Blue Mug''), (''*Quantity'', ''1''), (''*UnitAmount'', ''12'')]"

definition mug_shipping_row :: row where
  "mug_shipping_row =
     [(''Description'', ''#10 Standard Shipping''), (''*Quantity'', ''1''), (''*UnitAmount'', ''4'')]"

definition mug_discount_row :: row where
  "mug_discount_row =
     [(''Description'', ''#10 Discount - Spring Sale''), (''*Quantity'', ''1''),
      (''*UnitAmount'', ''-2'')]"

definition cap_row :: row where
  "cap_row = [(''Description'', ''#2 Cap''), (''*Quantity'', ''3''), (''*UnitAmount'', ''7'')]"

definition loose_row :: row where
  "loose_row = [(''Description'', ''Gift wrap''), (''*Quantity'', ''1''), (''*UnitAmount'', ''1'')]"

definition five_rows :: "row list" where
  "five_rows = [mug_row, mug_shipping_row, loose_row, mug_discount_row, cap_row]"

text \<open>A table whose brands are named \<open>2\<close>, \<open>Acme\<close> and \<open>1\<close>, in that order.\<close>

definition brand_headers :: "string list" where
  "brand_headers =
     [''*ContactName'', ''*InvoiceNumber'', ''Description'', ''*Quantity'', ''*UnitAmount'',
      ''TaxAmount'']"

definition numbered_brands_table :: "cell list list" where
  "numbered_brands_table =
     [map Str brand_headers,
      map Str [''2'', ''INV1'', ''Mug'', ''1'', ''10'', ''1.67''],
      map Str [''Acme'', ''INV2'', ''Cap'', ''1'', ''5'', ''0.83''],
      map Str [''1'', ''INV3'', ''Pen'', ''1'', ''2'', ''0.33''],
      map Str [''2'', ''INV4'', ''Bag'', ''1'', ''20'', ''3.33'']]"

text \<open>A table whose brands are named \<open>Zed\<close>, \<open>Acme\<close> and \<open>Zed\<close> again.\<close>

definition named_brands_table :: "cell list list" where
  "named_brands_table =
     [map Str brand_headers,
      map Str [''Zed'', ''INV1'', ''Mug'', ''1'', ''10'', ''1.67''],
      map Str [''Acme'', ''INV2'', ''Cap'', ''1'', ''5'', ''0.83''],
      map Str [''Zed'', ''INV3'', ''Pen'', ''1'', ''2'', ''0.33'']]"

text \<open>A table with the brands \<open>constructor\<close>, \<open>Acme\<close> and \<open>toString\<close>.\<close>

definition builtin_brands_table :: "cell list list" where
  "builtin_brands_table =
     [map Str brand_headers,
      map Str [''constructor'', ''INV1'', ''Mug'', ''1'', ''10'', ''1.67''],
      map Str [''Acme'', ''INV2'', ''Cap'', ''1'', ''5'', ''0.83''],
      map Str [''toString'', ''INV3'', ''Pen'', ''1'', ''2'', ''0.33'']]"

text \<open>The two rows of brand \<open>Acme\<close>, invoice \<open>INV1\<close>, as a CSV table and as row objects.\<close>

definition acme_headers :: "string list" where
  "acme_headers =
     [''*ContactName'', ''*InvoiceNumber'', ''Description'', ''*Quantity'', ''*UnitAmount'',
      ''*TaxType'', ''TaxAmount'']"

definition acme_table :: "cell list list" where
  "acme_table =
     [map Str acme_headers,
      map Str [''Acme'', ''INV1'', ''#1 Widget'', ''2'', ''10'', ''Standard'', ''3.33''],
      map Str [''Acme'', ''INV1'', ''#1 Shipping'', ''1'', ''5'', ''Standard'', ''0.83'']]"

definition widget_row :: row where
  "widget_row =
     [(''*ContactName'', ''Acme''), (''*InvoiceNumber'', ''INV1''),
      (''Description'', ''#1 Widget''), (''*Quantity'', ''2''), (''*UnitAmount'', ''10''),
      (''*TaxType'', ''Standard''), (''TaxAmount'', ''3.33'')]"

definition shipping_row :: row where
  "shipping_row =
     [(''*ContactName'', ''Acme''), (''*InvoiceNumber'', ''INV1''),
      (''Description'', ''#1 Shipping''), (''*Quantity'', ''1''), (''*UnitAmount'', ''5''),
      (''*TaxType'', ''Standard''), (''TaxAmount'', ''0.83'')]"

section \<open>Rounding\<close>

lemma frac_half_iff: "frac (x::rat) = 1 / 2 \<longleftrightarrow> x - 1 / 2 = of_int \<lfloor>x - 1 / 2\<rfloor>"
proof
  assume "frac x = 1 / 2"
  then have e: "x - 1 / 2 = of_int \<lfloor>x\<rfloor>" by (simp add: frac_def)
  then have "\<lfloor>x - 1 / 2\<rfloor> = \<lfloor>x\<rfloor>" by (metis floor_of_int)
  with e show "x - 1 / 2 = of_int \<lfloor>x - 1 / 2\<rfloor>" by simp
next
  assume a: "x - 1 / 2 = of_int \<lfloor>x - 1 / 2\<rfloor>"
  define n where "n = \<lfloor>x - 1 / 2\<rfloor>"
  from a have x: "x = of_int n + 1 / 2" by (simp add: n_def algebra_simps)
  have "\<lfloor>x\<rfloor> = n" unfolding x by (rule floor_unique) simp_all
  then show "frac x = 1 / 2" by (simp add: frac_def x)
qed

lemma half_up_away:
  "of_int \<lfloor>x + 1 / 2\<rfloor> =
     (if x < 0 \<and> frac x = 1 / 2 then round_half_away x + 1 else round_half_away (x::rat))"
proof (cases "x < 0")
  case False
  have "\<lfloor>1 / 2 :: rat\<rfloor> = 0" by (simp add: floor_eq_iff)
  with False show ?thesis by (simp add: round_half_away_def sgn_if)
next
  case True
  have up: "\<lfloor>x + 1 / 2\<rfloor> = \<lfloor>x - 1 / 2\<rfloor> + 1"
  proof -
    have "x + 1 / 2 = (x - 1 / 2) + of_int 1" by simp
    then show ?thesis by (metis floor_add_int)
  qed
  have "round_half_away x = - of_int \<lfloor>- (x - 1 / 2)\<rfloor>"
    using True by (simp add: round_half_away_def sgn_if algebra_simps)
  also have "\<dots> = of_int \<lceil>x - 1 / 2\<rceil>" by (simp add: ceiling_def)
  finally have r: "round_half_away x = of_int \<lceil>x - 1 / 2\<rceil>" .
  show ?thesis
    using True unfolding r up frac_half_iff by (simp add: ceiling_altdef)
qed

text \<open>\<open>Math.round\<close> against rounding half away from zero, on every Number.\<close>

lemma Math_round_half_away:
  "Math_round x =
     (case x of
        Fin t \<Rightarrow> if t < 0 \<and> frac t = 1 / 2 then Fin (round_half_away t + 1) else half_away x
      | _ \<Rightarrow> half_away x)"
  by (cases x) (simp_all add: half_up_away)

lemma round_agree:
  assumes "\<not> negative_tie v"
  shows "roundToNearest v = spec_round2 v"
proof (cases "nmul v (Fin (10 ^ 2))")
  case (Fin t)
  with assms have "\<not> (t < 0 \<and> frac t = 1 / 2)"
    by (simp add: negative_tie_def)
  then have "of_int \<lfloor>t + 1 / 2\<rfloor> = round_half_away t"
    unfolding half_up_away [of t] by (simp only: if_False)
  then show ?thesis
    unfolding roundToNearest_def spec_round2_def Fin by simp
qed (simp_all only: roundToNearest_def spec_round2_def Math_round.simps half_away.simps)

lemma round_tie:
  assumes "nmul v (Fin (10 ^ 2)) = Fin t" and "t < 0" and "frac t = 1 / 2"
  shows "roundToNearest v = fl ((round_half_away t + 1) / 100)"
    and "spec_round2 v = fl (round_half_away t / 100)"
proof -
  have "of_int \<lfloor>t + 1 / 2\<rfloor> = round_half_away t + 1"
    unfolding half_up_away [of t] using assms(2,3) by simp
  then show "roundToNearest v = fl ((round_half_away t + 1) / 100)"
    unfolding roundToNearest_def assms(1) by simp
  show "spec_round2 v = fl (round_half_away t / 100)"
    unfolding spec_round2_def assms(1) by simp
qed

text \<open>
  C1, as stated: \<open>round2\<close> rounds half away from zero for every value.  It does not:
  the hundredfold of \<open>-0.125\<close> is \<open>-12.5\<close>, a tie between \<open>-13\<close> and \<open>-12\<close>; half away
  from zero gives \<open>-0.13\<close>, the script gives \<open>-0.12\<close>.
\<close>

theorem roundToNearest_half_away_counterexample:
  "roundToNearest (Fin (- 1 / 8)) = parseFloat ''-0.12''
   \<and> spec_round2 (Fin (- 1 / 8)) = parseFloat ''-0.13''
   \<and> roundToNearest (Fin (- 1 / 8)) \<noteq> spec_round2 (Fin (- 1 / 8))"
proof -
  have a: "roundToNearest (Fin (- 1 / 8)) = parseFloat ''-0.12''" by code_simp
  have b: "spec_round2 (Fin (- 1 / 8)) = parseFloat ''-0.13''" by code_simp
  have c: "parseFloat ''-0.12'' \<noteq> parseFloat ''-0.13''" by code_simp
  from a b c show ?thesis by simp
qed

text \<open>
  C1, amended: \<open>round2\<close> multiplies by \<open>100\<close> in the arithmetic of Numbers, rounds the
  product to the nearest integer with a tie going towards plus infinity, and divides
  by \<open>100\<close> in the arithmetic of Numbers.  It agrees with rounding the same product
  half away from zero except when the product is negative and a tie; there the
  integer is one greater.  \<open>round2(10.005) = 10.01\<close>.
\<close>

theorem roundToNearest_half_up:
  "roundToNearest (Fin v) = ndivc (Math_round (fl (v * 100))) 100
   \<and> Math_round (Fin t) = Fin (of_int \<lfloor>t + 1 / 2\<rfloor>)
   \<and> (\<not> negative_tie (Fin v) \<longrightarrow> roundToNearest (Fin v) = spec_round2 (Fin v))
   \<and> (fl (v * 100) = Fin t \<and> t < 0 \<and> frac t = 1 / 2
        \<longrightarrow> roundToNearest (Fin v) = fl ((round_half_away t + 1) / 100)
            \<and> spec_round2 (Fin v) = fl (round_half_away t / 100))
   \<and> roundToNearest (parseFloat ''10.005'') = parseFloat ''10.01''"
proof -
  have a: "roundToNearest (Fin v) = ndivc (Math_round (fl (v * 100))) 100"
    by (simp add: roundToNearest_def)
  have m: "Math_round (Fin t) = Fin (of_int \<lfloor>t + 1 / 2\<rfloor>)"
    by simp
  have b: "roundToNearest (Fin v) = fl ((round_half_away t + 1) / 100)
      \<and> spec_round2 (Fin v) = fl (round_half_away t / 100)"
    if "fl (v * 100) = Fin t" and "t < 0" and "frac t = 1 / 2"
  proof -
    from that(1) have "nmul (Fin v) (Fin (10 ^ 2)) = Fin t" by simp
    from round_tie [OF this that(2,3)] show ?thesis by blast
  qed
  have c: "roundToNearest (parseFloat ''10.005'') = parseFloat ''10.01''" by code_simp
  from a m b c round_agree [of "Fin v"] show ?thesis by blast
qed

theorem roundToNearest_half_up_witness:
  "roundToNearest (Fin (- 1 / 8)) = fl (- 12 / 100)
   \<and> spec_round2 (Fin (- 1 / 8)) = fl (- 13 / 100)
   \<and> roundToNearest (Fin (1 / 8)) = spec_round2 (Fin (1 / 8))
   \<and> roundToNearest (Fin (1 / 8)) = parseFloat ''0.13''
   \<and> roundToNearest (parseFloat ''1.005'') = Fin 1
   \<and> roundToNearest (parseFloat ''10.005'') = parseFloat ''10.01''"
proof -
  note tie = roundToNearest_half_up [of "- 1 / 8" "- 25 / 2"]
  note plain = roundToNearest_half_up [of "1 / 8" 0]
  have t: "fl (- 1 / 8 * 100) = Fin (- 25 / 2)" by code_simp
  have l: "(- 25 / 2 :: rat) < 0" by simp
  have f: "frac (- 25 / 2 :: rat) = 1 / 2" by code_simp
  have h: "(round_half_away (- 25 / 2) + 1) / 100 = - 12 / 100
      \<and> round_half_away (- 25 / 2) / 100 = - 13 / 100"
    by code_simp
  from tie t l f have
    "roundToNearest (Fin (- 1 / 8)) = fl ((round_half_away (- 25 / 2) + 1) / 100)
     \<and> spec_round2 (Fin (- 1 / 8)) = fl (round_half_away (- 25 / 2) / 100)"
    by blast
  with h have a: "roundToNearest (Fin (- 1 / 8)) = fl (- 12 / 100)
      \<and> spec_round2 (Fin (- 1 / 8)) = fl (- 13 / 100)"
    by (simp only:)
  have n: "\<not> negative_tie (Fin (1 / 8))" by code_simp
  from plain n have b: "roundToNearest (Fin (1 / 8)) = spec_round2 (Fin (1 / 8))"
    by blast
  have p: "spec_round2 (Fin (1 / 8)) = parseFloat ''0.13''" by code_simp
  have q: "roundToNearest (parseFloat ''1.005'') = Fin 1" by code_simp
  from tie have c: "roundToNearest (parseFloat ''10.005'') = parseFloat ''10.01''"
    by blast
  from a b p q c show ?thesis by (simp only:)
qed

section \<open>The aggregator\<close>

lemma nmul_commute: "nmul a b = nmul b a"
  by (cases a; cases b) (simp_all add: mult.commute)

lemma grossRow_swap: "grossRow r = nmul (unitPriceOf r) (quantityOf r)"
  unfolding grossRow_def by (rule nmul_commute)

lemma foldl_nadd: "foldl (\<lambda>s r. nadd s (f r)) a xs = foldl nadd a (map f xs)"
  by (induction xs arbitrary: a) simp_all

lemma netRow_agree:
  "\<not> negative_tie (if noVat r then grossRow r else ndivc (grossRow r) (lit (12 / 10)))
   \<Longrightarrow> netRow r = spec_netRow r"
  by (auto simp: netRow_def spec_netRow_def round_agree split: if_splits)

lemma vatRow_agree:
  assumes "tie_free r"
  shows "vatRow r = spec_vatRow r"
proof (cases "noVat r")
  case True
  then show ?thesis by (simp add: vatRow_def spec_vatRow_def)
next
  case False
  from assms False have t: "\<not> negative_tie (nsub (grossRow r) (netRow r))"
    unfolding tie_free_def by blast
  from assms have n: "netRow r = spec_netRow r"
    unfolding tie_free_def by (intro netRow_agree) blast
  from False round_agree [OF t] show ?thesis
    by (simp add: vatRow_def spec_vatRow_def n)
qed

lemma tie_free_sums:
  assumes "\<forall>r \<in> set items. tie_free r"
  shows "map netRow items = map spec_netRow items"
    and "map vatRow items = map spec_vatRow items"
proof -
  show "map netRow items = map spec_netRow items"
    using assms by (intro map_cong refl netRow_agree) (simp add: tie_free_def)
  show "map vatRow items = map spec_vatRow items"
    using assms by (intro map_cong refl vatRow_agree) simp
qed

text \<open>
  C2, as stated: the net amount of a row is \<open>round2\<close> of its gross amount (over \<open>1.2\<close>
  unless free of VAT), and the subtotal is the sum of these.  It is not: for the row
  with quantity \<open>-1\<close> and unit amount \<open>0.125\<close>, free of VAT, \<open>round2\<close> of the gross
  amount is \<open>-0.13\<close>, while the script computes the net amount and the subtotal
  \<open>-0.12\<close>.
\<close>

theorem aggregator_round2_counterexample:
  "noVat negative_tie_row
   \<and> grossRow negative_tie_row = Fin (- 1 / 8)
   \<and> spec_netRow negative_tie_row = parseFloat ''-0.13''
   \<and> subtotal [negative_tie_row] = parseFloat ''-0.12''
   \<and> subtotal [negative_tie_row] \<noteq> nsum (map spec_netRow [negative_tie_row])"
proof -
  have a: "noVat negative_tie_row" by code_simp
  have b: "grossRow negative_tie_row = Fin (- 1 / 8)" by code_simp
  have c: "spec_netRow negative_tie_row = parseFloat ''-0.13''" by code_simp
  have d: "subtotal [negative_tie_row] = parseFloat ''-0.12''" by code_simp
  have e: "nsum (map spec_netRow [negative_tie_row]) = parseFloat ''-0.13''" by code_simp
  have f: "parseFloat ''-0.12'' \<noteq> parseFloat ''-0.13''" by code_simp
  from a b c d e f show ?thesis by simp
qed

text \<open>
  C2, amended: a row whose tax type contains \<open>no vat\<close> (in any case) has
  \<open>roundToNearest\<close> of its gross amount as net amount and no VAT; any other row has
  \<open>roundToNearest\<close> of the gross over \<open>1.2\<close> as net amount and \<open>roundToNearest\<close> of gross
  minus net as VAT; the gross amount is quantity times unit amount, and every
  operation is one of Numbers.  The net amount is the \<open>round2\<close> of the specification
  unless the amount to round is a negative tie.  The brand's subtotal is the net
  amounts, and its VAT the VAT amounts, added one after the other to \<open>0\<close> in the order
  of the rows; when no amount to round is a negative tie, they are the sums of the
  amounts that the specification states.
\<close>

theorem aggregator_rows:
  "subtotal items = nsum (map netRow items)
   \<and> totalVat items = nsum (map vatRow items)
   \<and> noVat r = includes_str (toLowerCase (taxTypeOf r)) ''no vat''
   \<and> netRow r =
       (if noVat r then roundToNearest (nmul (quantityOf r) (unitPriceOf r))
        else roundToNearest (ndivc (nmul (quantityOf r) (unitPriceOf r)) (lit (12 / 10))))
   \<and> vatRow r =
       (if noVat r then Fin 0
        else roundToNearest (nsub (nmul (quantityOf r) (unitPriceOf r)) (netRow r)))
   \<and> (\<not> negative_tie (if noVat r then grossRow r else ndivc (grossRow r) (lit (12 / 10)))
        \<longrightarrow> netRow r = spec_netRow r)
   \<and> ((\<forall>r \<in> set items. tie_free r)
        \<longrightarrow> subtotal items = nsum (map spec_netRow items)
            \<and> totalVat items = nsum (map spec_vatRow items))"
proof -
  have net: "(\<lambda>sum r.
              let quantity = quantityOf r;
                  unitPrice = unitPriceOf r;
                  taxType = taxTypeOf r;
                  netAmount =
                    (if includes_str (toLowerCase taxType) ''no vat''
                     then roundToNearest (nmul unitPrice quantity)
                     else roundToNearest (ndivc (nmul unitPrice quantity) (lit (12 / 10))))
              in nadd sum netAmount) = (\<lambda>s r. nadd s (netRow r))"
    by (intro ext) (simp add: Let_def netRow_def grossRow_swap noVat_def)
  have vat: "(\<lambda>sum r.
              let quantity = quantityOf r;
                  unitPrice = unitPriceOf r;
                  taxType = taxTypeOf r;
                  vatAmount =
                    (if \<not> includes_str (toLowerCase taxType) ''no vat''
                     then let grossAmount = nmul unitPrice quantity;
                              netAmount = roundToNearest (ndivc grossAmount (lit (12 / 10)))
                          in roundToNearest (nsub grossAmount netAmount)
                     else Fin 0)
              in nadd sum vatAmount) = (\<lambda>s r. nadd s (vatRow r))"
    by (intro ext) (simp add: Let_def vatRow_def netRow_def grossRow_swap noVat_def)
  have a: "subtotal items = nsum (map netRow items)"
    unfolding subtotal_def net nsum_def by (rule foldl_nadd)
  have b: "totalVat items = nsum (map vatRow items)"
    unfolding totalVat_def vat nsum_def by (rule foldl_nadd)
  have c: "noVat r = includes_str (toLowerCase (taxTypeOf r)) ''no vat''
      \<and> netRow r =
         (if noVat r then roundToNearest (nmul (quantityOf r) (unitPriceOf r))
          else roundToNearest (ndivc (nmul (quantityOf r) (unitPriceOf r)) (lit (12 / 10))))
      \<and> vatRow r =
         (if noVat r then Fin 0
          else roundToNearest (nsub (nmul (quantityOf r) (unitPriceOf r)) (netRow r)))"
    by (simp add: netRow_def vatRow_def grossRow_def noVat_def)
  have d: "subtotal items = nsum (map spec_netRow items)
      \<and> totalVat items = nsum (map spec_vatRow items)"
    if "\<forall>r \<in> set items. tie_free r"
    using a b tie_free_sums [OF that] by simp
  from a b c d netRow_agree [of r] show ?thesis by blast
qed

theorem aggregator_rows_witness:
  "subtotal [novat_row, std_row, cents_row] = parseFloat ''47.21''
   \<and> totalVat [novat_row, std_row, cents_row] = parseFloat ''3.45''
   \<and> netRow novat_row = parseFloat ''29.97'' \<and> vatRow novat_row = Fin 0
   \<and> netRow std_row = parseFloat ''16.67'' \<and> vatRow std_row = parseFloat ''3.33''
   \<and> netRow cents_row = parseFloat ''0.57'' \<and> vatRow cents_row = parseFloat ''0.12''
   \<and> spec_netRow cents_row = parseFloat ''0.57''
   \<and> nsum (map spec_netRow [novat_row, std_row, cents_row]) = parseFloat ''47.21''
   \<and> nsum (map spec_vatRow [novat_row, std_row, cents_row]) = parseFloat ''3.45''"
proof -
  note t = aggregator_rows [of "[novat_row, std_row, cents_row]" cents_row]
  have s: "nsum (map netRow [novat_row, std_row, cents_row]) = parseFloat ''47.21''"
    by code_simp
  have v: "nsum (map vatRow [novat_row, std_row, cents_row]) = parseFloat ''3.45''"
    by code_simp
  have n: "netRow novat_row = parseFloat ''29.97'' \<and> vatRow novat_row = Fin 0
      \<and> netRow std_row = parseFloat ''16.67'' \<and> vatRow std_row = parseFloat ''3.33''
      \<and> netRow cents_row = parseFloat ''0.57'' \<and> vatRow cents_row = parseFloat ''0.12''"
    by code_simp
  have h: "\<not> negative_tie (if noVat cents_row then grossRow cents_row
      else ndivc (grossRow cents_row) (lit (12 / 10)))"
    by code_simp
  have f: "tie_free novat_row \<and> tie_free std_row \<and> tie_free cents_row"
    by code_simp
  then have "\<forall>r \<in> set [novat_row, std_row, cents_row]. tie_free r"
    by simp
  with t have g: "subtotal [novat_row, std_row, cents_row]
        = nsum (map spec_netRow [novat_row, std_row, cents_row])
      \<and> totalVat [novat_row, std_row, cents_row]
        = nsum (map spec_vatRow [novat_row, std_row, cents_row])"
    by blast
  from t h have e: "netRow cents_row = spec_netRow cents_row" by blast
  from t s have a: "subtotal [novat_row, std_row, cents_row] = parseFloat ''47.21''"
    by (simp only:)
  from t v have b: "totalVat [novat_row, std_row, cents_row] = parseFloat ''3.45''"
    by (simp only:)
  from a b n e g show ?thesis by (simp only:)
qed

section \<open>Quantity and unit amount of a row\<close>

lemma takeWhile_empty_iff: "takeWhile P xs = [] \<longleftrightarrow> xs = [] \<or> \<not> P (hd xs)"
  by (cases xs) auto

lemma startsWith_single: "startsWith s [c] \<longleftrightarrow> s \<noteq> [] \<and> hd s = c"
  by (cases s) auto

lemma dropWhile_id: "takeWhile P xs = [] \<Longrightarrow> dropWhile P xs = xs"
  by (cases xs) (auto split: if_splits)

lemma fl_not_NaN: "fl x \<noteq> NaN"
  by (simp add: fl_def Let_def)

lemma parseFloat_NaN_iff: "parseFloat s = NaN \<longleftrightarrow> \<not> numeric_start s"
proof -
  define t where "t = dropWhile is_ws s"
  define u where "u = (if startsWith t ''-'' \<or> startsWith t ''+'' then tl t else t)"
  define ip where "ip = takeWhile is_digit u"
  define r1 where "r1 = dropWhile is_digit u"
  define fp where "fp = (if startsWith r1 ''.'' then takeWhile is_digit (tl r1) else [])"
  have ns: "numeric_start s \<longleftrightarrow>
      startsWith u ''Infinity'' \<or> (u \<noteq> [] \<and> is_digit (hd u))
      \<or> (startsWith u ''.'' \<and> tl u \<noteq> [] \<and> is_digit (hd (tl u)))"
    by (simp add: numeric_start_def Let_def t_def u_def)
  have pf: "parseFloat s = NaN \<longleftrightarrow> \<not> startsWith u ''Infinity'' \<and> ip = [] \<and> fp = []"
    by (simp add: parseFloat_def Let_def t_def [symmetric] u_def [symmetric]
          ip_def [symmetric] r1_def [symmetric] fp_def [symmetric] fl_not_NaN)
  have ip: "ip = [] \<longleftrightarrow> u = [] \<or> \<not> is_digit (hd u)"
    by (simp add: ip_def takeWhile_empty_iff)
  have fp: "fp = [] \<longleftrightarrow> \<not> (startsWith u ''.'' \<and> tl u \<noteq> [] \<and> is_digit (hd (tl u)))"
    if "ip = []"
  proof -
    from that have "r1 = u" by (simp add: r1_def ip_def dropWhile_id)
    then show ?thesis by (auto simp: fp_def takeWhile_empty_iff)
  qed
  show ?thesis
  proof (cases "ip = []")
    case True
    with fp ip show ?thesis unfolding pf ns by blast
  next
    case False
    with ip show ?thesis unfolding pf ns by blast
  qed
qed

text \<open>
  C7, amended: the quantity is \<open>1\<close> and the unit amount \<open>0\<close> when the cell is absent
  or empty under both of its header names.  A cell that is not empty is parsed by
  \<open>parseFloat\<close>, and the value is \<open>NaN\<close> exactly when the cell does not start with a
  decimal literal; such a row keeps \<open>NaN\<close> as its quantity or unit amount.
\<close>

theorem quantity_defaults:
  "(getProp r ''*Quantity'' = [] \<and> getProp r ''Quantity'' = [] \<longrightarrow> quantityOf r = Fin 1)
   \<and> (getProp r ''*UnitAmount'' = [] \<and> getProp r ''UnitAmount'' = [] \<longrightarrow> unitPriceOf r = Fin 0)
   \<and> (quantityOf r = NaN \<longleftrightarrow>
        \<not> numeric_start (or_else (getProp r ''*Quantity'') (or_else (getProp r ''Quantity'') ''1'')))
   \<and> (unitPriceOf r = NaN \<longleftrightarrow>
        \<not> numeric_start (or_else (getProp r ''*UnitAmount'') (or_else (getProp r ''UnitAmount'') ''0'')))"
proof -
  have one: "parseFloat ''1'' = Fin 1" by code_simp
  have zero: "parseFloat ''0'' = Fin 0" by code_simp
  show ?thesis
    by (simp add: quantityOf_def unitPriceOf_def or_else_def one zero parseFloat_NaN_iff)
qed

theorem quantity_defaults_witness:
  "quantityOf [] = Fin 1 \<and> unitPriceOf [] = Fin 0
   \<and> quantityOf two_boxes_row = Fin 2 \<and> unitPriceOf two_boxes_row = Fin 0
   \<and> quantityOf text_amounts_row = NaN"
proof -
  have a: "getProp [] ''*Quantity'' = [] \<and> getProp [] ''Quantity'' = []
      \<and> getProp [] ''*UnitAmount'' = [] \<and> getProp [] ''UnitAmount'' = []"
    by (simp add: getProp_def)
  have b: "getProp two_boxes_row ''*UnitAmount'' = [] \<and> getProp two_boxes_row ''UnitAmount'' = []"
    by code_simp
  have c: "quantityOf two_boxes_row = Fin 2" by code_simp
  have d: "\<not> numeric_start (or_else (getProp text_amounts_row ''*Quantity'')
      (or_else (getProp text_amounts_row ''Quantity'') ''1''))" by code_simp
  show ?thesis
    using quantity_defaults [of "[]"] quantity_defaults [of two_boxes_row]
      quantity_defaults [of text_amounts_row] a b c d by simp
qed

text \<open>
  C7, as stated: a quantity or unit amount cell that is not numeric gets the default.
  It does not: the cells \<open>abc\<close> and \<open>n/a\<close> give \<open>NaN\<close>, not \<open>1\<close> and \<open>0\<close>.
\<close>

theorem quantity_defaults_counterexample:
  "quantityOf text_amounts_row = NaN \<and> quantityOf text_amounts_row \<noteq> Fin 1
   \<and> unitPriceOf text_amounts_row = NaN \<and> unitPriceOf text_amounts_row \<noteq> Fin 0"
  by code_simp

section \<open>Row normalization\<close>

lemma map_of_assign: "map_of (assign k v obj) = (map_of obj)(k \<mapsto> v)"
  by (induction obj) (auto simp: fun_eq_iff)

lemma getProp_assign: "getProp (assign h v obj) k = (if h = k then v else getProp obj k)"
  by (simp add: getProp_def map_of_assign)

lemma cell_text_falsy: "\<not> truthy c \<Longrightarrow> cell_text nts c = []"
  by (simp add: cell_text_def)

lemma normalize_fold_empty:
  assumes "getProp obj k = []"
    and "\<forall>(h, i) \<in> set ps. h = k \<longrightarrow> \<not> truthy (cell_at r i)"
  shows "getProp (foldl (\<lambda>obj (h, i).
              if h = ''__proto__'' then obj else assign h (cell_text nts (cell_at r i)) obj)
            obj ps) k = []"
  using assms
proof (induction ps arbitrary: obj)
  case Nil
  then show ?case by simp
next
  case (Cons p ps)
  obtain h i where p: "p = (h, i)" by (cases p)
  let ?obj = "if h = ''__proto__'' then obj else assign h (cell_text nts (cell_at r i)) obj"
  have "getProp ?obj k = []"
    using Cons.prems by (auto simp: p getProp_assign cell_text_falsy)
  moreover have "\<forall>(h, i) \<in> set ps. h = k \<longrightarrow> \<not> truthy (cell_at r i)"
    using Cons.prems by simp
  ultimately show ?case
    using Cons.IH [of ?obj] by (simp add: p)
qed

lemma normalize_row_falsy:
  assumes "\<forall>i < length headers. headers ! i = k \<longrightarrow> \<not> truthy (cell_at r i)"
  shows "getProp (normalize_row nts headers r) k = []"
proof -
  have "\<forall>(h, i) \<in> set (zip headers [0 ..< length headers]). h = k \<longrightarrow> \<not> truthy (cell_at r i)"
    using assms by (auto simp: set_zip)
  then show ?thesis
    unfolding normalize_row_def by (intro normalize_fold_empty) (simp_all add: getProp_def)
qed

text \<open>
  C10: a missing cell, an empty string and the number zero are falsy and become the
  empty string, so a row reads as empty under every header whose cells are of these
  kinds.  A row whose quantity cells are of these kinds gets the quantity \<open>1\<close>, and a
  row whose unit amount cells are of these kinds gets the unit amount \<open>0\<close>.
\<close>

theorem falsy_cells_read_as_absent:
  "cell_at [] i = Undefined
   \<and> cell_text nts Undefined = [] \<and> cell_text nts (Str []) = []
   \<and> cell_text nts (Num (Fin 0)) = []
   \<and> ((\<forall>i < length headers. headers ! i = k
           \<longrightarrow> cell_at r i \<in> {Undefined, Str [], Num (Fin 0)})
        \<longrightarrow> getProp (normalize_row nts headers r) k = [])
   \<and> ((\<forall>i < length headers. headers ! i = ''*Quantity'' \<or> headers ! i = ''Quantity''
           \<longrightarrow> cell_at r i \<in> {Undefined, Str [], Num (Fin 0)})
        \<longrightarrow> quantityOf (normalize_row nts headers r) = Fin 1)
   \<and> ((\<forall>i < length headers. headers ! i = ''*UnitAmount'' \<or> headers ! i = ''UnitAmount''
           \<longrightarrow> cell_at r i \<in> {Undefined, Str [], Num (Fin 0)})
        \<longrightarrow> unitPriceOf (normalize_row nts headers r) = Fin 0)"
proof -
  have falsy: "\<not> truthy c" if "c \<in> {Undefined, Str [], Num (Fin 0)}" for c
    using that by auto
  have one: "parseFloat ''1'' = Fin 1" by code_simp
  have zero: "parseFloat ''0'' = Fin 0" by code_simp
  have a: "getProp (normalize_row nts headers r) k = []"
    if "\<forall>i < length headers. headers ! i = k
          \<longrightarrow> cell_at r i \<in> {Undefined, Str [], Num (Fin 0)}" for k
    using that falsy by (intro normalize_row_falsy) blast
  have q: "quantityOf (normalize_row nts headers r) = Fin 1"
    if h: "\<forall>i < length headers. headers ! i = ''*Quantity'' \<or> headers ! i = ''Quantity''
          \<longrightarrow> cell_at r i \<in> {Undefined, Str [], Num (Fin 0)}"
  proof -
    have "getProp (normalize_row nts headers r) ''*Quantity'' = []"
      using h by (intro a) blast
    moreover have "getProp (normalize_row nts headers r) ''Quantity'' = []"
      using h by (intro a) blast
    ultimately show ?thesis by (simp add: quantityOf_def or_else_def one)
  qed
  have u: "unitPriceOf (normalize_row nts headers r) = Fin 0"
    if h: "\<forall>i < length headers. headers ! i = ''*UnitAmount'' \<or> headers ! i = ''UnitAmount''
          \<longrightarrow> cell_at r i \<in> {Undefined, Str [], Num (Fin 0)}"
  proof -
    have "getProp (normalize_row nts headers r) ''*UnitAmount'' = []"
      using h by (intro a) blast
    moreover have "getProp (normalize_row nts headers r) ''UnitAmount'' = []"
      using h by (intro a) blast
    ultimately show ?thesis by (simp add: unitPriceOf_def or_else_def zero)
  qed
  have c: "cell_at [] i = Undefined" by (simp add: cell_at_def)
  have t: "cell_text nts Undefined = [] \<and> cell_text nts (Str []) = []
      \<and> cell_text nts (Num (Fin 0)) = []"
    by (simp add: cell_text_def)
  from a [of k] q u c t show ?thesis by blast
qed

theorem falsy_cells_read_as_absent_witness:
  "normalize_row integer_toString amount_headers zero_cells =
     [(''*ContactName'', ''Acme''), (''*Quantity'', []), (''*UnitAmount'', [])]
   \<and> quantityOf (normalize_row integer_toString amount_headers zero_cells) = Fin 1
   \<and> unitPriceOf (normalize_row integer_toString amount_headers zero_cells) = Fin 0
   \<and> quantityOf (normalize_row integer_toString amount_headers zero_texts) = Fin 0"
proof -
  have n: "normalize_row integer_toString amount_headers zero_cells =
      [(''*ContactName'', ''Acme''), (''*Quantity'', []), (''*UnitAmount'', [])]"
    by code_simp
  have q: "\<forall>i < length amount_headers.
      amount_headers ! i = ''*Quantity'' \<or> amount_headers ! i = ''Quantity''
      \<longrightarrow> cell_at zero_cells i \<in> {Undefined, Str [], Num (Fin 0)}"
    by (simp add: amount_headers_def zero_cells_def cell_at_def less_Suc_eq)
  have u: "\<forall>i < length amount_headers.
      amount_headers ! i = ''*UnitAmount'' \<or> amount_headers ! i = ''UnitAmount''
      \<longrightarrow> cell_at zero_cells i \<in> {Undefined, Str [], Num (Fin 0)}"
    by (simp add: amount_headers_def zero_cells_def cell_at_def less_Suc_eq)
  have t: "quantityOf (normalize_row integer_toString amount_headers zero_texts) = Fin 0"
    by code_simp
  show ?thesis
    using falsy_cells_read_as_absent [of 0 integer_toString amount_headers k zero_cells for k]
      n q u t by blast
qed

section \<open>The header check\<close>

lemma recognized_headerSet: "recognized name headers \<longleftrightarrow> name \<in> headerSet headers"
  by (auto simp: recognized_def headerSet_def)

lemma header_cells_Str: "header_cells nts (map Str hs) = Inr (map trim hs)"
  by (induction hs) simp_all

text \<open>
  C6, amended: the contact name, the invoice number, the quantity and the unit amount
  are recognized under the plain name and under the name with a star; the
  description and the tax amount are recognized under the plain name only; all of
  them in any case of letters.  A header row that lacks one of them ends the run with
  \<open>HeadersNotAsExpected\<close> whatever rows follow, before they are read or grouped.
\<close>

theorem header_check:
  "(basicOk headers \<longleftrightarrow>
      (recognized ''*contactname'' headers \<or> recognized ''contactname'' headers)
      \<and> (recognized ''*invoicenumber'' headers \<or> recognized ''invoicenumber'' headers)
      \<and> recognized ''description'' headers
      \<and> (recognized ''*quantity'' headers \<or> recognized ''quantity'' headers)
      \<and> (recognized ''*unitamount'' headers \<or> recognized ''unitamount'' headers)
      \<and> recognized ''taxamount'' headers)
   \<and> (map toLowerCase headers = map toLowerCase headers' \<longrightarrow> basicOk headers = basicOk headers')
   \<and> (header_cells nts hrow = Inr headers \<and> \<not> basicOk headers
        \<longrightarrow> generateBrandReports nts statics (hrow # rest) = Inl HeadersNotAsExpected)"
proof -
  have a: "basicOk headers \<longleftrightarrow>
      (recognized ''*contactname'' headers \<or> recognized ''contactname'' headers)
      \<and> (recognized ''*invoicenumber'' headers \<or> recognized ''invoicenumber'' headers)
      \<and> recognized ''description'' headers
      \<and> (recognized ''*quantity'' headers \<or> recognized ''quantity'' headers)
      \<and> (recognized ''*unitamount'' headers \<or> recognized ''unitamount'' headers)
      \<and> recognized ''taxamount'' headers"
    unfolding recognized_headerSet basicOk_def by (rule refl)
  have b: "basicOk headers = basicOk headers'"
    if "map toLowerCase headers = map toLowerCase headers'"
    using that by (simp add: basicOk_def headerSet_def)
  have c: "generateBrandReports nts statics (hrow # rest) = Inl HeadersNotAsExpected"
    if "header_cells nts hrow = Inr headers" and "\<not> basicOk headers"
    using that by (simp add: generateBrandReports_def)
  from a b c show ?thesis by blast
qed

theorem header_check_witness:
  "basicOk capital_headers
   \<and> \<not> basicOk no_description_headers
   \<and> generateBrandReports integer_toString Object_statics
       [map Str no_description_headers, [Str ''Acme'']]
       = Inl HeadersNotAsExpected"
proof -
  have la: "map toLowerCase capital_headers =
      [''*contactname'', ''invoicenumber'', ''description'', ''*quantity'', ''unitamount'',
       ''taxamount'']"
    by code_simp
  have lb: "map toLowerCase no_description_headers =
      [''contactname'', ''invoicenumber'', ''quantity'', ''unitamount'', ''taxamount'']"
    by code_simp
  have a: "basicOk capital_headers"
    unfolding basicOk_def headerSet_def la by simp
  have b: "\<not> basicOk no_description_headers"
    unfolding basicOk_def headerSet_def lb by simp
  have c: "header_cells integer_toString (map Str no_description_headers)
      = Inr no_description_headers"
    by code_simp
  show ?thesis
    using header_check [of no_description_headers no_description_headers integer_toString
        "map Str no_description_headers" Object_statics "[[Str ''Acme'']]"] a b c
    by blast
qed

text \<open>
  C6, as stated: every required concept is recognized under its name with a star.
  It is not: a header row that names all six columns with a star fails the check,
  because \<open>*Description\<close> and \<open>*TaxAmount\<close> are not accepted, and the run ends.
\<close>

theorem header_check_counterexample:
  "\<not> recognized ''description'' starred_headers
   \<and> \<not> recognized ''taxamount'' starred_headers
   \<and> \<not> basicOk starred_headers
   \<and> generateBrandReports integer_toString Object_statics
       [map Str starred_headers, [Str ''Acme'']]
       = Inl HeadersNotAsExpected"
proof -
  have l: "map toLowerCase starred_headers =
      [''*contactname'', ''*invoicenumber'', ''*description'', ''*quantity'', ''*unitamount'',
       ''*taxamount'']"
    by code_simp
  have r: "\<not> recognized ''description'' starred_headers
      \<and> \<not> recognized ''taxamount'' starred_headers"
    unfolding recognized_headerSet headerSet_def l by simp
  have b: "\<not> basicOk starred_headers"
    unfolding basicOk_def headerSet_def l by simp
  have c: "header_cells integer_toString (map Str starred_headers) = Inr starred_headers"
    by code_simp
  have d: "generateBrandReports integer_toString Object_statics
      [map Str starred_headers, [Str ''Acme'']]
      = Inl HeadersNotAsExpected"
    using b c by (simp add: generateBrandReports_def)
  from r b d show ?thesis by blast
qed

section \<open>Printed amounts\<close>

lemma digit_char: "0 \<le> n \<Longrightarrow> n < 10 \<Longrightarrow> is_digit (char_of (48 + (n::int)))"
proof -
  assume a: "0 \<le> n" "n < 10"
  define m where "m = nat n"
  have n: "n = int m" and m: "m < 10" using a by (simp_all add: m_def)
  have "48 + n = int (48 + m)" by (simp add: n)
  then have "char_of (48 + n) = (char_of (48 + m) :: char)"
    by (simp only: char_of_nat)
  then show ?thesis using m by (simp add: is_digit_def)
qed

lemma digits_of_digits: "0 \<le> n \<Longrightarrow> list_all is_digit (digits_of n)"
proof (induction n rule: digits_of.induct)
  case (1 n)
  show ?case
  proof (cases "n < 10")
    case True
    with "1.prems" show ?thesis by (subst digits_of.simps) (simp add: digit_char)
  next
    case False
    with "1.prems" "1.IH" have "list_all is_digit (digits_of (n div 10))" by simp
    moreover have "is_digit (char_of (48 + n mod 10))" by (intro digit_char) simp_all
    ultimately show ?thesis using False by (subst digits_of.simps) simp
  qed
qed

lemma is_digit_zero: "is_digit CHR ''0''"
  by (simp add: is_digit_def)

lemma toFixed_small_chars:
  assumes "0 \<le> x" and "x < 10 ^ 21"
  shows "\<forall>c \<in> set (toFixed nts (Fin x)). is_digit c \<or> c = CHR ''.''"
proof -
  define n where "n = \<lfloor>x * 100 + 1 / 2\<rfloor>"
  define m where "m = (if length (digits_of n) \<le> 2
    then replicate (3 - length (digits_of n)) CHR ''0'' @ digits_of n else digits_of n)"
  have "0 \<le> n" using assms(1) by (simp add: n_def)
  then have "list_all is_digit (digits_of n)" by (rule digits_of_digits)
  then have m: "\<forall>c \<in> set m. is_digit c"
    by (auto simp: m_def list_all_iff is_digit_zero)
  have "toFixed nts (Fin x) = take (length m - 2) m @ ''.'' @ drop (length m - 2) m"
    using assms by (simp add: toFixed_def Let_def n_def m_def)
  then show ?thesis
    using m by (auto dest: in_set_takeD in_set_dropD)
qed

lemma toFixed_negative: "x < 0 \<Longrightarrow> toFixed nts (Fin x) = ''-'' @ toFixed nts (Fin (- x))"
  by (simp add: toFixed_def Let_def)

lemma foldl_append_concat: "foldl (\<lambda>a k. a @ g k) acc ks = acc @ concat (map g ks)"
  by (induction ks arbitrary: acc) simp_all

lemma concat_map_concat:
  "concat (map (\<lambda>k. concat (map f (e k))) ks) = concat (map f (concat (map e ks)))"
  by (induction ks) simp_all

lemma itemRowsHtml_renderedRows:
  "itemRowsHtml nts byOrder = concat (map (renderRow nts) (renderedRows byOrder))"
proof -
  have "itemRowsHtml nts byOrder =
      concat (map (\<lambda>k. concat (map (renderRow nts)
        (discounts (orderItemsOf byOrder k) @ normal (orderItemsOf byOrder k)
         @ shipping (orderItemsOf byOrder k)))) (sortedOrderNumbers byOrder))"
    by (simp add: itemRowsHtml_def Let_def foldl_append_concat)
  also have "\<dots> = concat (map (renderRow nts) (renderedRows byOrder))"
    unfolding renderedRows_def Let_def by (rule concat_map_concat)
  finally show ?thesis .
qed

lemma renderRow_net:
  "\<exists>pre. renderRow nts r = pre @ formatAmount nts (netRow r) @ ''</td>'' @ nl @ ''        </tr>''"
proof -
  have g: "grossRow r = nmul (unitPriceOf r) (quantityOf r)"
    unfolding grossRow_def by (rule nmul_commute)
  have n: "netRow r =
      (if includes_str (toLowerCase (taxTypeOf r)) ''no vat''
       then roundToNearest (nmul (unitPriceOf r) (quantityOf r))
       else roundToNearest (ndivc (nmul (unitPriceOf r) (quantityOf r)) (lit (12 / 10))))"
    by (simp add: netRow_def noVat_def g)
  show ?thesis
    unfolding renderRow_def Let_def n [symmetric]
    by (metis append.assoc)
qed

text \<open>
  C8, amended: the net amount of a row is printed by \<open>formatAmount\<close>, which puts a
  negative amount in parentheses, without a minus sign.  The subtotal, the VAT total
  and the gross total of the brand are printed by \<open>toFixed(2)\<close> alone, which puts a
  minus sign before a negative amount.
\<close>

theorem negative_amounts:
  "(nlt0 a \<longrightarrow> formatAmount nts a = ''('' @ toFixed nts (Math_abs a) @ '')'')
   \<and> (x < 0 \<and> - (10 ^ 21) < x
        \<longrightarrow> formatAmount nts (Fin x) = ''('' @ toFixed nts (Fin (- x)) @ '')''
            \<and> CHR ''-'' \<notin> set (formatAmount nts (Fin x)))
   \<and> (\<exists>pre. renderRow nts r =
          pre @ formatAmount nts (netRow r) @ ''</td>'' @ nl @ ''        </tr>'')
   \<and> (x < 0 \<longrightarrow> toFixed nts (Fin x) = ''-'' @ toFixed nts (Fin (- x)))
   \<and> html (brandReport nts b brandData) =
       itemsTableOpen @ itemRowsHtml nts (itemsByOrderNumber (allItemsOf brandData))
       @ itemsTableClose
       @ pound @ toFixed nts (subtotal (allItemsOf brandData)) @ subtotalClose
       @ pound @ toFixed nts (totalVat (allItemsOf brandData)) @ vatClose
       @ pound @ toFixed nts (totalGbp (allItemsOf brandData)) @ totalClose"
proof -
  have a: "formatAmount nts a = ''('' @ toFixed nts (Math_abs a) @ '')''" if "nlt0 a"
    using that by (simp add: formatAmount_def)
  have b: "formatAmount nts (Fin x) = ''('' @ toFixed nts (Fin (- x)) @ '')''
      \<and> CHR ''-'' \<notin> set (formatAmount nts (Fin x))"
    if "x < 0" and "- (10 ^ 21) < x"
  proof -
    have f: "formatAmount nts (Fin x) = ''('' @ toFixed nts (Fin (- x)) @ '')''"
      using that by (simp add: formatAmount_def)
    have "\<forall>c \<in> set (toFixed nts (Fin (- x))). is_digit c \<or> c = CHR ''.''"
      using that by (intro toFixed_small_chars) simp_all
    moreover have "\<not> is_digit CHR ''-''" by (simp add: is_digit_def)
    ultimately have "CHR ''-'' \<notin> set (toFixed nts (Fin (- x)))" by auto
    with f show ?thesis by simp
  qed
  have c: "html (brandReport nts b brandData) =
       itemsTableOpen @ itemRowsHtml nts (itemsByOrderNumber (allItemsOf brandData))
       @ itemsTableClose
       @ pound @ toFixed nts (subtotal (allItemsOf brandData)) @ subtotalClose
       @ pound @ toFixed nts (totalVat (allItemsOf brandData)) @ vatClose
       @ pound @ toFixed nts (totalGbp (allItemsOf brandData)) @ totalClose"
    by (simp add: brandReport_def Let_def invoicesHtml_def)
  from a b c renderRow_net [of nts r] toFixed_negative [of x nts] show ?thesis by blast
qed

theorem negative_amounts_witness:
  "formatAmount integer_toString (netRow refund_row) = ''(8.33)''
   \<and> CHR ''-'' \<notin> set (formatAmount integer_toString (netRow refund_row))
   \<and> toFixed integer_toString (subtotal [refund_row]) = ''-8.33''"
proof -
  define x :: rat where "x = - 4689373111999529 / 562949953421312"
  note t = negative_amounts [of "Fin x" integer_toString x]
  have n: "netRow refund_row = Fin x" unfolding x_def by code_simp
  have s: "subtotal [refund_row] = Fin x" unfolding x_def by code_simp
  have p: "toFixed integer_toString (Fin (- x)) = ''8.33''" unfolding x_def by code_simp
  have h: "x < 0 \<and> - (10 ^ 21) < x" unfolding x_def by simp
  from t h have "formatAmount integer_toString (Fin x) =
      ''('' @ toFixed integer_toString (Fin (- x)) @ '')''
      \<and> CHR ''-'' \<notin> set (formatAmount integer_toString (Fin x))"
    by blast
  then have a: "formatAmount integer_toString (netRow refund_row) = ''(8.33)''
      \<and> CHR ''-'' \<notin> set (formatAmount integer_toString (netRow refund_row))"
    unfolding n p by simp
  from t h have "toFixed integer_toString (Fin x) = ''-'' @ toFixed integer_toString (Fin (- x))"
    by blast
  then have b: "toFixed integer_toString (subtotal [refund_row]) = ''-8.33''"
    unfolding s p by simp
  from a b show ?thesis by blast
qed

text \<open>
  C8, as stated: the brand's subtotal, VAT total and gross total are shown in
  parentheses when negative.  They are not: for a brand whose only row is a refund
  they are shown as \<open>-8.33\<close>, \<open>-1.67\<close> and \<open>-10.00\<close>, while the row's net amount is
  shown as \<open>(8.33)\<close>.
\<close>

theorem negative_totals_counterexample:
  "formatAmount integer_toString (netRow refund_row) = ''(8.33)''
   \<and> toFixed integer_toString (subtotal [refund_row]) = ''-8.33''
   \<and> toFixed integer_toString (totalVat [refund_row]) = ''-1.67''
   \<and> toFixed integer_toString (totalGbp [refund_row]) = ''-10.00''
   \<and> html (brandReport integer_toString ''Acme'' [(''INV1'', [refund_row])]) =
       itemsTableOpen @ renderRow integer_toString refund_row @ itemsTableClose
       @ pound @ ''-8.33'' @ subtotalClose
       @ pound @ ''-1.67'' @ vatClose
       @ pound @ ''-10.00'' @ totalClose"
proof -
  have f: "formatAmount integer_toString (netRow refund_row) = ''(8.33)''" by code_simp
  have s: "toFixed integer_toString (subtotal [refund_row]) = ''-8.33''" by code_simp
  have v: "toFixed integer_toString (totalVat [refund_row]) = ''-1.67''" by code_simp
  have g: "toFixed integer_toString (totalGbp [refund_row]) = ''-10.00''" by code_simp
  have i: "allItemsOf [(''INV1'', [refund_row])] = [refund_row]" by code_simp
  have r: "renderedRows (itemsByOrderNumber [refund_row]) = [refund_row]" by code_simp
  have h: "html (brandReport integer_toString ''Acme'' [(''INV1'', [refund_row])]) =
       itemsTableOpen @ renderRow integer_toString refund_row @ itemsTableClose
       @ pound @ ''-8.33'' @ subtotalClose
       @ pound @ ''-1.67'' @ vatClose
       @ pound @ ''-10.00'' @ totalClose"
    by (simp add: brandReport_def Let_def invoicesHtml_def i itemRowsHtml_renderedRows r s v g)
  from f s v g h show ?thesis by simp
qed

section \<open>Classification within an order\<close>

lemma count_list_filter:
  "count_list (filter P xs) r = (if P r then count_list xs r else 0)"
  by (induction xs) auto

text \<open>
  How often a row of an order is rendered: twice the number of its occurrences when
  it passes the discount test and the shipping test, and once per occurrence
  otherwise.
\<close>

lemma rendered_count:
  "count_list (discounts xs @ normal xs @ shipping xs) r =
     (if (includes_str (toLowerCase (getProp r ''Description'')) ''discount'' \<or> nlt0 (quantityOf r))
         \<and> shippingRegex_test (getProp r ''Description'')
      then 2 * count_list xs r else count_list xs r)"
  by (simp add: discounts_def normal_def shipping_def Let_def count_list_filter)

text \<open>
  C4 at the input that breaks it: a row whose description contains both
  \<open>discount\<close> and \<open>ship\<close> is kept by the discount filter and by the shipping filter,
  and is rendered twice.
\<close>

theorem shipping_discount_rendered_twice:
  "discounts [shipping_discount_row] = [shipping_discount_row]
   \<and> normal [shipping_discount_row] = []
   \<and> shipping [shipping_discount_row] = [shipping_discount_row]
   \<and> renderedRows (itemsByOrderNumber [shipping_discount_row]) =
       [shipping_discount_row, shipping_discount_row]
   \<and> itemRowsHtml nts (itemsByOrderNumber [shipping_discount_row]) =
       renderRow nts shipping_discount_row @ renderRow nts shipping_discount_row"
proof -
  have d: "discounts [shipping_discount_row] = [shipping_discount_row]" by code_simp
  have n: "normal [shipping_discount_row] = []" by code_simp
  have s: "shipping [shipping_discount_row] = [shipping_discount_row]" by code_simp
  have r: "renderedRows (itemsByOrderNumber [shipping_discount_row]) =
      [shipping_discount_row, shipping_discount_row]"
    by code_simp
  from d n s r show ?thesis by (simp add: itemRowsHtml_renderedRows)
qed

section \<open>Order groups\<close>

lemma orderItemsOf_push_at:
  "orderItemsOf (push_at k x obj) k' =
     (if k = k' then orderItemsOf obj k' @ [x] else orderItemsOf obj k')"
  by (induction obj) (auto simp: orderItemsOf_def)

lemma keys_push_at: "set (map fst (push_at k x obj)) = insert k (set (map fst obj))"
proof (induction obj)
  case Nil
  show ?case by simp
next
  case (Cons p obj)
  obtain k' xs where p: "p = (k', xs)" by (cases p)
  show ?case
  proof (cases "k = k'")
    case True
    then show ?thesis by (simp add: p del: set_map)
  next
    case False
    then show ?thesis using Cons.IH by (simp add: p del: set_map) blast
  qed
qed

lemma distinct_push_at: "distinct (map fst (push_at k x obj)) = distinct (map fst obj)"
proof (induction obj)
  case Nil
  show ?case by simp
next
  case (Cons p obj)
  obtain k' xs where p: "p = (k', xs)" by (cases p)
  show ?case
  proof (cases "k = k'")
    case True
    then show ?thesis by (simp add: p)
  next
    case False
    have "k' \<in> set (map fst (push_at k x obj)) \<longleftrightarrow> k' \<in> set (map fst obj)"
      unfolding keys_push_at using False by simp
    then show ?thesis using False Cons.IH by (simp add: p del: set_map)
  qed
qed

lemma orderItemsOf_fold:
  "orderItemsOf (foldl (\<lambda>obj item. push_at (f item) item obj) obj items) k =
     orderItemsOf obj k @ filter (\<lambda>item. f item = k) items"
  by (induction items arbitrary: obj) (auto simp: orderItemsOf_push_at)

lemma keys_fold:
  "set (map fst (foldl (\<lambda>obj item. push_at (f item) item obj) obj items)) =
     set (map fst obj) \<union> f ` set items"
proof (induction items arbitrary: obj)
  case Nil
  show ?case by simp
next
  case (Cons item items)
  show ?case
    unfolding foldl_Cons Cons.IH keys_push_at by auto
qed

lemma distinct_fold:
  "distinct (map fst (foldl (\<lambda>obj item. push_at (f item) item obj) obj items)) =
     distinct (map fst obj)"
  by (induction items arbitrary: obj) (auto simp: distinct_push_at)

lemma Object_keys_set: "set (Object_keys obj) = set (map fst obj)"
  by (auto simp: Object_keys_def Object_entries_def)

lemma Object_keys_distinct:
  assumes "distinct (map fst obj)"
  shows "distinct (Object_keys obj)"
proof -
  from assms have d: "distinct obj" and i: "inj_on fst (set obj)"
    by (simp_all add: distinct_map)
  have "distinct (Object_entries obj)"
    using d by (auto simp: Object_entries_def)
  moreover have "inj_on fst (set (Object_entries obj))"
    using i by (auto simp: Object_entries_def intro: inj_on_subset)
  ultimately show ?thesis by (simp add: Object_keys_def distinct_map)
qed

lemma sortedOrderNumbers_props:
  "sorted (sortedOrderNumbers (itemsByOrderNumber items))
   \<and> distinct (sortedOrderNumbers (itemsByOrderNumber items))
   \<and> set (sortedOrderNumbers (itemsByOrderNumber items)) =
       (\<lambda>item. orderNumOf (getProp item ''Description'')) ` set items"
proof -
  have d: "distinct (map fst (itemsByOrderNumber items))"
    unfolding itemsByOrderNumber_def distinct_fold by simp
  have s: "set (map fst (itemsByOrderNumber items)) =
      (\<lambda>item. orderNumOf (getProp item ''Description'')) ` set items"
    unfolding itemsByOrderNumber_def keys_fold by simp
  show ?thesis
    unfolding sortedOrderNumbers_def
    using Object_keys_distinct [OF d] s by (simp add: Object_keys_set del: set_map)
qed

lemma orderItemsOf_itemsByOrderNumber:
  "orderItemsOf (itemsByOrderNumber items) k =
     filter (\<lambda>item. orderNumOf (getProp item ''Description'') = k) items"
proof -
  have "orderItemsOf [] k = []" by (simp add: orderItemsOf_def)
  then show ?thesis
    unfolding itemsByOrderNumber_def orderItemsOf_fold by simp
qed

lemma takeWhile_digits:
  assumes "list_all is_digit ds" and "rest = [] \<or> \<not> is_digit (hd rest)"
  shows "takeWhile is_digit (ds @ rest) = ds"
  using assms by (cases rest) (auto simp: list_all_iff takeWhile_eq_Nil_iff)

lemma orderNumOf_match:
  assumes "ds \<noteq> []" and "list_all is_digit ds" and "rest = [] \<or> \<not> is_digit (hd rest)"
  shows "orderNumOf (''#'' @ ds @ rest) = ds"
  using assms by (simp add: orderNumOf_def takeWhile_digits)

lemma orderNumOf_no_match:
  assumes "\<forall>ds rest. ds \<noteq> [] \<and> list_all is_digit ds \<longrightarrow> desc \<noteq> ''#'' @ ds @ rest"
  shows "orderNumOf desc = ''Unknown''"
proof (cases desc)
  case Nil
  then show ?thesis by (simp add: orderNumOf_def)
next
  case (Cons c rest)
  show ?thesis
  proof (cases "c = CHR ''#'' \<and> takeWhile is_digit rest \<noteq> []")
    case False
    then show ?thesis by (auto simp: orderNumOf_def Cons)
  next
    case True
    have "desc = ''#'' @ takeWhile is_digit rest @ dropWhile is_digit rest"
      using True by (simp add: Cons)
    moreover have "list_all is_digit (takeWhile is_digit rest)"
      by (auto simp: list_all_iff dest: set_takeWhileD)
    ultimately show ?thesis using assms True by blast
  qed
qed

lemma digits_before_Unknown:
  assumes "list_all is_digit k"
  shows "k < ''Unknown''"
proof (cases k)
  case Nil
  then show ?thesis by simp
next
  case (Cons c cs)
  with assms have "is_digit c" by simp
  then have "c < CHR ''U''" by (simp add: is_digit_def less_char_def)
  then show ?thesis by (simp add: Cons)
qed

lemma ten_before_two: "''10'' < ''2''"
  by (simp add: less_char_def)

text \<open>
  C5: the order number of a row is the run of digits after a leading \<open>#\<close> of its
  description (\<open>#123 Widget\<close> gives \<open>123\<close>), and \<open>Unknown\<close> when the description
  does not start with \<open>#\<close> and a digit.  The rows of a brand with the same order
  number form one group, in their order; the groups are rendered in the
  lexicographic order of their keys, in which \<open>10\<close> comes before \<open>2\<close> and every
  run of digits before \<open>Unknown\<close>.
\<close>

theorem order_groups:
  "orderNumOf ''#123 Widget'' = ''123''
   \<and> (ds \<noteq> [] \<and> list_all is_digit ds \<and> (rest = [] \<or> \<not> is_digit (hd rest))
        \<longrightarrow> orderNumOf (''#'' @ ds @ rest) = ds)
   \<and> ((\<forall>ds rest. ds \<noteq> [] \<and> list_all is_digit ds \<longrightarrow> desc \<noteq> ''#'' @ ds @ rest)
        \<longrightarrow> orderNumOf desc = ''Unknown'')
   \<and> orderItemsOf (itemsByOrderNumber items) k =
       filter (\<lambda>item. orderNumOf (getProp item ''Description'') = k) items
   \<and> sorted (sortedOrderNumbers (itemsByOrderNumber items))
   \<and> distinct (sortedOrderNumbers (itemsByOrderNumber items))
   \<and> set (sortedOrderNumbers (itemsByOrderNumber items)) =
       (\<lambda>item. orderNumOf (getProp item ''Description'')) ` set items
   \<and> renderedRows (itemsByOrderNumber items) =
       concat (map (\<lambda>orderNum.
                      discounts (orderItemsOf (itemsByOrderNumber items) orderNum)
                      @ normal (orderItemsOf (itemsByOrderNumber items) orderNum)
                      @ shipping (orderItemsOf (itemsByOrderNumber items) orderNum))
                 (sortedOrderNumbers (itemsByOrderNumber items)))
   \<and> itemRowsHtml nts (itemsByOrderNumber items) =
       concat (map (renderRow nts) (renderedRows (itemsByOrderNumber items)))
   \<and> ''10'' < ''2''
   \<and> (list_all is_digit digits \<longrightarrow> digits < ''Unknown'')"
proof -
  have a: "orderNumOf ''#123 Widget'' = ''123''" by code_simp
  have r: "renderedRows (itemsByOrderNumber items) =
       concat (map (\<lambda>orderNum.
                      discounts (orderItemsOf (itemsByOrderNumber items) orderNum)
                      @ normal (orderItemsOf (itemsByOrderNumber items) orderNum)
                      @ shipping (orderItemsOf (itemsByOrderNumber items) orderNum))
                 (sortedOrderNumbers (itemsByOrderNumber items)))"
    by (simp add: renderedRows_def Let_def)
  from a r orderNumOf_match [of ds rest] orderNumOf_no_match [of desc]
    orderItemsOf_itemsByOrderNumber [of items k] sortedOrderNumbers_props [of items]
    itemRowsHtml_renderedRows [of nts "itemsByOrderNumber items"] ten_before_two
    digits_before_Unknown [of digits]
  show ?thesis by blast
qed

theorem order_groups_witness:
  "orderNumOf ''#10 Blue Mug'' = ''10''
   \<and> orderNumOf ''Gift wrap'' = ''Unknown''
   \<and> sortedOrderNumbers (itemsByOrderNumber five_rows) = [''10'', ''2'', ''Unknown'']
   \<and> orderItemsOf (itemsByOrderNumber five_rows) ''10'' =
       [mug_row, mug_shipping_row, mug_discount_row]
   \<and> renderedRows (itemsByOrderNumber five_rows) =
       [mug_discount_row, mug_row, mug_shipping_row, cap_row, loose_row]
   \<and> ''10'' < ''Unknown''"
proof -
  have d: "''10'' \<noteq> [] \<and> list_all is_digit ''10''
      \<and> ('' Blue Mug'' = [] \<or> \<not> is_digit (hd '' Blue Mug''))"
    by (simp add: is_digit_def)
  have g: "\<forall>ds rest. ds \<noteq> [] \<and> list_all is_digit ds \<longrightarrow> ''Gift wrap'' \<noteq> ''#'' @ ds @ rest"
    by simp
  have s: "sortedOrderNumbers (itemsByOrderNumber five_rows) = [''10'', ''2'', ''Unknown'']"
    by code_simp
  have f: "filter (\<lambda>item. orderNumOf (getProp item ''Description'') = ''10'') five_rows =
      [mug_row, mug_shipping_row, mug_discount_row]"
    by code_simp
  have r: "renderedRows (itemsByOrderNumber five_rows) =
      [mug_discount_row, mug_row, mug_shipping_row, cap_row, loose_row]"
    by code_simp
  show ?thesis
    using order_groups [of "''10''" "'' Blue Mug''" "''Gift wrap''" five_rows "''10''" nts "''10''"
        for nts] d g s f r
    by simp
qed

section \<open>The order of the brands\<close>

lemma group_row_keys:
  "map fst (group_row b i r bs) =
     (if b \<in> set (map fst bs) then map fst bs else map fst bs @ [b])"
proof (induction bs)
  case Nil
  show ?case by simp
next
  case (Cons p bs)
  obtain b' bd where p: "p = (b', bd)" by (cases p)
  show ?case using Cons.IH by (auto simp: p)
qed

text \<open>
  The keys of \<open>brands\<close> after the loop: the brand keys of the rows that are not
  inherited, in the order of their first appearance.
\<close>

lemma group_rows_keys:
  assumes "group_rows statics headers rows bs = Inr bs'"
  shows "map fst bs' =
     map fst bs @ filter (\<lambda>k. k \<notin> set (map fst bs))
       (first_seen (filter (\<lambda>b. b \<notin> set Object_prototype_names)
          (map (brandOf headers) rows)))"
  using assms
proof (induction rows arbitrary: bs)
  case Nil
  then show ?case by simp
next
  case (Cons r rows)
  define b where "b = brandOf headers r"
  define fs where "fs = first_seen (filter (\<lambda>b. b \<notin> set Object_prototype_names)
    (map (brandOf headers) rows))"
  show ?case
  proof (cases "b \<in> set Object_prototype_names")
    case True
    with Cons.prems have g: "group_rows statics headers rows bs = Inr bs'"
      by (simp add: Let_def b_def [symmetric] split: if_splits)
    from Cons.IH [OF g] True show ?thesis
      by (simp add: b_def [symmetric])
  next
    case inherited: False
    with Cons.prems have
      g: "group_rows statics headers rows (group_row b (invoiceNumOf r) r bs) = Inr bs'"
      by (simp add: Let_def b_def [symmetric] split: if_splits)
    note ih = Cons.IH [OF g, folded fs_def]
    show ?thesis
    proof (cases "b \<in> set (map fst bs)")
      case True
      then have "filter (\<lambda>k. k \<notin> set (map fst bs)) (filter (\<lambda>y. y \<noteq> b) fs) =
          filter (\<lambda>k. k \<notin> set (map fst bs)) fs"
        by (auto simp: filter_filter intro: filter_cong)
      with True ih inherited show ?thesis
        by (simp add: group_row_keys b_def [symmetric] fs_def [symmetric] del: set_map)
    next
      case False
      have "filter (\<lambda>k. k \<notin> set (map fst bs @ [b])) fs =
          filter (\<lambda>k. k \<notin> set (map fst bs)) (filter (\<lambda>y. y \<noteq> b) fs)"
        by (auto simp: filter_filter intro: filter_cong)
      with False ih inherited show ?thesis
        by (simp add: group_row_keys b_def [symmetric] fs_def [symmetric] del: set_map)
    qed
  qed
qed

lemma group_rows_passes:
  "(\<forall>r \<in> set rows. row_passes statics headers r)
   \<Longrightarrow> \<exists>bs'. group_rows statics headers rows bs = Inr bs'"
  by (induction rows arbitrary: bs) (auto simp: row_passes_def Let_def split: if_splits)

lemma map_insort_key: "map f (insort_key (\<lambda>x. g (f x)) x xs) = insort_key g (f x) (map f xs)"
  by (induction xs) simp_all

lemma map_sort_key: "map f (sort_key (\<lambda>x. g (f x)) xs) = sort_key g (map f xs)"
  by (induction xs) (simp_all add: map_insort_key)

lemma Object_keys_alt:
  "Object_keys obj =
     sort_key digits_val (filter is_array_index (map fst obj))
     @ filter (\<lambda>k. \<not> is_array_index k) (map fst obj)"
  by (simp add: Object_keys_def Object_entries_def map_sort_key filter_map comp_def)

lemma brands_of_pdfResults: "map brand (pdfResults nts bs) = Object_keys bs"
  by (simp add: pdfResults_def brandReport_def Let_def comp_def)

lemma report_brands:
  "map_sum id (map brand) (generateBrandReports nts statics (hrow # rest)) =
     (case header_cells nts hrow of
        Inl e \<Rightarrow> Inl e
      | Inr headers \<Rightarrow>
          if \<not> basicOk headers then Inl HeadersNotAsExpected
          else map_sum id Object_keys
                 (group_rows statics headers (map (normalize_row nts headers) rest) []))"
  by (simp add: generateBrandReports_def brands_of_pdfResults Let_def split: sum.splits)

lemma set_first_seen: "set (first_seen xs) = set xs"
  by (induction xs) auto

text \<open>
  C9, amended: the brands are processed one after the other in the order of
  \<open>Object.keys(brands)\<close>: first the brand names that are array indices (canonical
  decimal integers below \<open>2^32 - 1\<close>) in ascending numeric order, then all other
  brand names in the order of their first appearance in the rows.  A brand name that
  every object inherits from \<open>Object.prototype\<close> never becomes a key of \<open>brands\<close> and
  gets no report.  A table without array indices among its brand names is processed
  in the order of first appearance.  The run returns reports whenever the header
  check passes and every row passes the loop.
\<close>

theorem brand_order:
  "(header_cells nts hrow = Inr headers
    \<and> generateBrandReports nts statics (hrow # rest) = Inr results
    \<longrightarrow> map brand results =
          sort_key digits_val (filter is_array_index
            (first_seen (filter (\<lambda>b. b \<notin> set Object_prototype_names)
               (map (\<lambda>r. brandOf headers (normalize_row nts headers r)) rest))))
          @ filter (\<lambda>k. \<not> is_array_index k)
              (first_seen (filter (\<lambda>b. b \<notin> set Object_prototype_names)
                 (map (\<lambda>r. brandOf headers (normalize_row nts headers r)) rest))))
   \<and> (header_cells nts hrow = Inr headers
        \<and> generateBrandReports nts statics (hrow # rest) = Inr results
        \<and> (\<forall>r \<in> set rest. \<not> is_array_index (brandOf headers (normalize_row nts headers r)))
        \<longrightarrow> map brand results =
              first_seen (filter (\<lambda>b. b \<notin> set Object_prototype_names)
                (map (\<lambda>r. brandOf headers (normalize_row nts headers r)) rest)))
   \<and> (header_cells nts hrow = Inr headers \<and> basicOk headers
        \<and> (\<forall>r \<in> set rest. row_passes statics headers (normalize_row nts headers r))
        \<longrightarrow> (\<exists>reports. generateBrandReports nts statics (hrow # rest) = Inr reports))"
proof -
  define fs where
    "fs = first_seen (filter (\<lambda>b. b \<notin> set Object_prototype_names)
       (map (\<lambda>r. brandOf headers (normalize_row nts headers r)) rest))"
  have a: "map brand results =
      sort_key digits_val (filter is_array_index fs) @ filter (\<lambda>k. \<not> is_array_index k) fs"
    if h: "header_cells nts hrow = Inr headers"
      and g: "generateBrandReports nts statics (hrow # rest) = Inr results"
  proof -
    from h g have ok: "basicOk headers"
      by (auto simp: generateBrandReports_def split: if_splits)
    from h g ok obtain bs where
      bs: "group_rows statics headers (map (normalize_row nts headers) rest) [] = Inr bs"
      and res: "results = pdfResults nts bs"
      by (auto simp: generateBrandReports_def Let_def split: sum.splits)
    have "map fst bs = fs"
      using group_rows_keys [OF bs] by (simp add: fs_def comp_def)
    then show ?thesis
      by (simp add: res brands_of_pdfResults Object_keys_alt)
  qed
  have b: "map brand results = fs"
    if h: "header_cells nts hrow = Inr headers"
      and g: "generateBrandReports nts statics (hrow # rest) = Inr results"
      and n: "\<forall>r \<in> set rest. \<not> is_array_index (brandOf headers (normalize_row nts headers r))"
  proof -
    have "\<forall>k \<in> set fs. \<not> is_array_index k"
      using n by (auto simp: fs_def set_first_seen)
    then have "filter is_array_index fs = []" and "filter (\<lambda>k. \<not> is_array_index k) fs = fs"
      by (simp_all add: filter_empty_conv filter_id_conv)
    with a [OF h g] show ?thesis by simp
  qed
  have c: "\<exists>reports. generateBrandReports nts statics (hrow # rest) = Inr reports"
    if h: "header_cells nts hrow = Inr headers" and ok: "basicOk headers"
      and p: "\<forall>r \<in> set rest. row_passes statics headers (normalize_row nts headers r)"
  proof -
    from p have "\<forall>r \<in> set (map (normalize_row nts headers) rest). row_passes statics headers r"
      by simp
    from group_rows_passes [OF this] obtain bs where
      "group_rows statics headers (map (normalize_row nts headers) rest) [] = Inr bs"
      by blast
    with h ok show ?thesis by (simp add: generateBrandReports_def)
  qed
  from a b c show ?thesis unfolding fs_def by blast
qed

lemma brand_headers_ok: "basicOk brand_headers"
proof -
  have "map toLowerCase brand_headers =
      [''*contactname'', ''*invoicenumber'', ''description'', ''*quantity'', ''*unitamount'',
       ''taxamount'']"
    by code_simp
  then show ?thesis unfolding basicOk_def headerSet_def by simp
qed

lemma numbered_brands_facts:
  "header_cells integer_toString (hd numbered_brands_table) = Inr brand_headers
   \<and> map_sum id Object_keys
        (group_rows Object_statics brand_headers
           (map (normalize_row integer_toString brand_headers) (tl numbered_brands_table)) [])
       = Inr [''1'', ''2'', ''Acme'']
   \<and> first_seen (map (\<lambda>r. brandOf brand_headers (normalize_row integer_toString brand_headers r))
         (tl numbered_brands_table)) = [''2'', ''Acme'', ''1'']
   \<and> first_seen (filter (\<lambda>b. b \<notin> set Object_prototype_names)
         (map (\<lambda>r. brandOf brand_headers (normalize_row integer_toString brand_headers r))
            (tl numbered_brands_table))) = [''2'', ''Acme'', ''1'']"
  by code_simp

lemma numbered_brands_split:
  "numbered_brands_table = hd numbered_brands_table # tl numbered_brands_table"
  by (simp add: numbered_brands_table_def)

lemma numbered_brands_run:
  "map_sum id (map brand)
     (generateBrandReports integer_toString Object_statics numbered_brands_table)
     = Inr [''1'', ''2'', ''Acme'']"
  by (subst numbered_brands_split)
    (simp add: report_brands numbered_brands_facts brand_headers_ok)

lemma named_brands_facts:
  "header_cells integer_toString (hd named_brands_table) = Inr brand_headers
   \<and> map_sum id Object_keys
        (group_rows Object_statics brand_headers
           (map (normalize_row integer_toString brand_headers) (tl named_brands_table)) [])
       = Inr [''Zed'', ''Acme'']
   \<and> map (\<lambda>r. brandOf brand_headers (normalize_row integer_toString brand_headers r))
         (tl named_brands_table) = [''Zed'', ''Acme'', ''Zed'']
   \<and> \<not> is_array_index ''Zed'' \<and> \<not> is_array_index ''Acme''
   \<and> ''Zed'' \<notin> set Object_prototype_names \<and> ''Acme'' \<notin> set Object_prototype_names"
  by code_simp

lemma named_brands_split:
  "named_brands_table = hd named_brands_table # tl named_brands_table"
  by (simp add: named_brands_table_def)

lemma named_brands_run:
  "map_sum id (map brand)
     (generateBrandReports integer_toString Object_statics named_brands_table)
     = Inr [''Zed'', ''Acme'']"
  by (subst named_brands_split)
    (simp add: report_brands named_brands_facts brand_headers_ok)

lemma builtin_brands_facts:
  "header_cells integer_toString (hd builtin_brands_table) = Inr brand_headers
   \<and> list_all (\<lambda>r. row_passes Object_statics brand_headers
          (normalize_row integer_toString brand_headers r)) (tl builtin_brands_table)
   \<and> map (\<lambda>r. brandOf brand_headers (normalize_row integer_toString brand_headers r))
         (tl builtin_brands_table) = [''constructor'', ''Acme'', ''toString'']
   \<and> filter (\<lambda>b. b \<notin> set Object_prototype_names) [''constructor'', ''Acme'', ''toString'']
       = [''Acme'']
   \<and> \<not> is_array_index ''Acme''"
  by code_simp

lemma builtin_brands_split:
  "builtin_brands_table = hd builtin_brands_table # tl builtin_brands_table"
  by (simp add: builtin_brands_table_def)

theorem brand_order_witness:
  "map_sum id (map brand)
     (generateBrandReports integer_toString Object_statics numbered_brands_table)
     = Inr [''1'', ''2'', ''Acme'']
   \<and> map_sum id (map brand)
       (generateBrandReports integer_toString Object_statics named_brands_table)
       = Inr [''Zed'', ''Acme'']
   \<and> map_sum id (map brand)
       (generateBrandReports integer_toString Object_statics builtin_brands_table)
       = Inr [''Acme'']"
proof -
  obtain numbered where
    n: "generateBrandReports integer_toString Object_statics
          (hd numbered_brands_table # tl numbered_brands_table) = Inr numbered"
    using numbered_brands_run numbered_brands_split
    by (cases "generateBrandReports integer_toString Object_statics numbered_brands_table") auto
  obtain named where
    m: "generateBrandReports integer_toString Object_statics
          (hd named_brands_table # tl named_brands_table) = Inr named"
    using named_brands_run named_brands_split
    by (cases "generateBrandReports integer_toString Object_statics named_brands_table") auto
  have "\<forall>r \<in> set (tl builtin_brands_table). row_passes Object_statics brand_headers
      (normalize_row integer_toString brand_headers r)"
    using builtin_brands_facts by (simp add: list_all_iff)
  then obtain builtin where
    b: "generateBrandReports integer_toString Object_statics
          (hd builtin_brands_table # tl builtin_brands_table) = Inr builtin"
    using brand_order [of integer_toString "hd builtin_brands_table" brand_headers
        Object_statics "tl builtin_brands_table" "[]"] builtin_brands_facts brand_headers_ok
    by blast
  have s: "sort_key digits_val (filter is_array_index [''2'', ''Acme'', ''1''])
      @ filter (\<lambda>k. \<not> is_array_index k) [''2'', ''Acme'', ''1''] = [''1'', ''2'', ''Acme'']"
    by code_simp
  have f: "first_seen [''Zed'', ''Acme'', ''Zed''] = [''Zed'', ''Acme'']"
    by simp
  have "map brand numbered = [''1'', ''2'', ''Acme'']"
    using brand_order [of integer_toString "hd numbered_brands_table" brand_headers
        Object_statics "tl numbered_brands_table" numbered] n numbered_brands_facts s
    by simp
  moreover have "map brand named = [''Zed'', ''Acme'']"
    using brand_order [of integer_toString "hd named_brands_table" brand_headers
        Object_statics "tl named_brands_table" named] m named_brands_facts f
    by simp
  moreover have "map brand builtin = [''Acme'']"
    using brand_order [of integer_toString "hd builtin_brands_table" brand_headers
        Object_statics "tl builtin_brands_table" builtin] b builtin_brands_facts
    by simp
  ultimately show ?thesis
    using n m b numbered_brands_split named_brands_split builtin_brands_split by simp
qed

text \<open>
  C9, as stated: the reports come in the order in which the brands first appear.
  They do not: the brands \<open>2\<close>, \<open>Acme\<close>, \<open>1\<close> of the table are processed in the
  order \<open>1\<close>, \<open>2\<close>, \<open>Acme\<close>.
\<close>

theorem brand_order_counterexample:
  "first_seen (map (\<lambda>r. brandOf brand_headers (normalize_row integer_toString brand_headers r))
       (tl numbered_brands_table)) = [''2'', ''Acme'', ''1'']
   \<and> map_sum id (map brand)
       (generateBrandReports integer_toString Object_statics numbered_brands_table)
       = Inr [''1'', ''2'', ''Acme'']"
  using numbered_brands_facts numbered_brands_run by simp

section \<open>One run, end to end\<close>

lemma acme_headers_ok: "basicOk acme_headers"
proof -
  have "map toLowerCase acme_headers =
      [''*contactname'', ''*invoicenumber'', ''description'', ''*quantity'', ''*unitamount'',
       ''*taxtype'', ''taxamount'']"
    by code_simp
  then show ?thesis unfolding basicOk_def headerSet_def by simp
qed

lemma acme_rows:
  "header_cells nts (hd acme_table) = Inr acme_headers
   \<and> map (normalize_row nts acme_headers) (tl acme_table) = [widget_row, shipping_row]
   \<and> group_rows statics acme_headers [widget_row, shipping_row] [] =
       Inr [(''Acme'', [(''INV1'', [widget_row, shipping_row])])]
   \<and> Object_keys [(''Acme'', [(''INV1'', [widget_row, shipping_row])])] = [''Acme'']
   \<and> brandDataOf [(''Acme'', [(''INV1'', [widget_row, shipping_row])])] ''Acme'' =
       [(''INV1'', [widget_row, shipping_row])]
   \<and> allItemsOf [(''INV1'', [widget_row, shipping_row])] = [widget_row, shipping_row]
   \<and> Object_keys [(''INV1'', [widget_row, shipping_row])] = [''INV1'']"
  by code_simp

lemma acme_run:
  "generateBrandReports nts statics acme_table =
     Inr [brandReport nts ''Acme'' [(''INV1'', [widget_row, shipping_row])]]"
proof -
  have t: "acme_table = hd acme_table # tl acme_table"
    by (simp add: acme_table_def)
  show ?thesis
    by (subst t)
      (simp add: generateBrandReports_def acme_rows acme_headers_ok pdfResults_def
         del: group_rows.simps)
qed

text \<open>
  C3: the two rows of brand \<open>Acme\<close> give one report, for \<open>Acme\<close>, with the one order
  group \<open>1\<close>; the widget is a normal row and is rendered first, the shipping row is
  rendered second; the subtotal is \<open>16.67 + 4.17\<close>, the VAT \<open>3.33 + 0.83 = 4.16\<close> and
  the total \<open>25\<close>, and the report shows them as \<open>20.84\<close>, \<open>4.16\<close> and \<open>25.00\<close>.  (The
  sum \<open>16.67 + 4.17\<close> of Numbers is \<open>733242314331259 / 2^45\<close>, which is
  \<open>20.840000000000003\<close> to seventeen digits.)
\<close>

theorem acme_end_to_end:
  "generateBrandReports nts statics acme_table =
     Inr [brandReport nts ''Acme'' [(''INV1'', [widget_row, shipping_row])]]
   \<and> map brand [brandReport nts ''Acme'' [(''INV1'', [widget_row, shipping_row])]] = [''Acme'']
   \<and> allItemsOf [(''INV1'', [widget_row, shipping_row])] = [widget_row, shipping_row]
   \<and> itemsByOrderNumber [widget_row, shipping_row] = [(''1'', [widget_row, shipping_row])]
   \<and> sortedOrderNumbers (itemsByOrderNumber [widget_row, shipping_row]) = [''1'']
   \<and> discounts [widget_row, shipping_row] = []
   \<and> normal [widget_row, shipping_row] = [widget_row]
   \<and> shipping [widget_row, shipping_row] = [shipping_row]
   \<and> renderedRows (itemsByOrderNumber [widget_row, shipping_row]) = [widget_row, shipping_row]
   \<and> subtotal [widget_row, shipping_row] = nadd (parseFloat ''16.67'') (parseFloat ''4.17'')
   \<and> totalVat [widget_row, shipping_row] = nadd (parseFloat ''3.33'') (parseFloat ''0.83'')
   \<and> totalVat [widget_row, shipping_row] = parseFloat ''4.16''
   \<and> totalGbp [widget_row, shipping_row] = Fin 25
   \<and> toFixed nts (subtotal [widget_row, shipping_row]) = ''20.84''
   \<and> toFixed nts (totalVat [widget_row, shipping_row]) = ''4.16''
   \<and> toFixed nts (totalGbp [widget_row, shipping_row]) = ''25.00''
   \<and> html (brandReport nts ''Acme'' [(''INV1'', [widget_row, shipping_row])]) =
       itemsTableOpen @ renderRow nts widget_row @ renderRow nts shipping_row
       @ itemsTableClose
       @ pound @ ''20.84'' @ subtotalClose
       @ pound @ ''4.16'' @ vatClose
       @ pound @ ''25.00'' @ totalClose"
proof -
  have b: "map brand [brandReport nts ''Acme'' [(''INV1'', [widget_row, shipping_row])]] = [''Acme'']"
    by (simp add: brandReport_def Let_def)
  have g: "itemsByOrderNumber [widget_row, shipping_row] = [(''1'', [widget_row, shipping_row])]"
    by code_simp
  have k: "sortedOrderNumbers (itemsByOrderNumber [widget_row, shipping_row]) = [''1'']"
    by code_simp
  have c: "discounts [widget_row, shipping_row] = []
      \<and> normal [widget_row, shipping_row] = [widget_row]
      \<and> shipping [widget_row, shipping_row] = [shipping_row]"
    by code_simp
  have r: "renderedRows (itemsByOrderNumber [widget_row, shipping_row]) = [widget_row, shipping_row]"
    by code_simp
  have s: "subtotal [widget_row, shipping_row] = nadd (parseFloat ''16.67'') (parseFloat ''4.17'')"
    by code_simp
  have v: "totalVat [widget_row, shipping_row] = nadd (parseFloat ''3.33'') (parseFloat ''0.83'')"
    by code_simp
  have v': "totalVat [widget_row, shipping_row] = parseFloat ''4.16''"
    by code_simp
  have t: "totalGbp [widget_row, shipping_row] = Fin 25" by code_simp
  have fs: "toFixed nts (subtotal [widget_row, shipping_row]) = ''20.84''" by code_simp
  have fv: "toFixed nts (totalVat [widget_row, shipping_row]) = ''4.16''" by code_simp
  have ft: "toFixed nts (totalGbp [widget_row, shipping_row]) = ''25.00''" by code_simp
  have h: "html (brandReport nts ''Acme'' [(''INV1'', [widget_row, shipping_row])]) =
       itemsTableOpen @ renderRow nts widget_row @ renderRow nts shipping_row
       @ itemsTableClose
       @ pound @ ''20.84'' @ subtotalClose
       @ pound @ ''4.16'' @ vatClose
       @ pound @ ''25.00'' @ totalClose"
    by (simp add: brandReport_def Let_def invoicesHtml_def acme_rows
          itemRowsHtml_renderedRows r fs fv ft)
  from acme_run [of nts statics] acme_rows [of nts statics] b g k c r s v v' t fs fv ft h
  show ?thesis by (simp only: simp_thms)
qed

theorem acme_end_to_end_witness:
  "map_sum id (map brand) (generateBrandReports integer_toString Object_statics acme_table)
     = Inr [''Acme'']
   \<and> map_sum id (map invoiceNumbers)
       (generateBrandReports integer_toString Object_statics acme_table) = Inr [[''INV1'']]
   \<and> map_sum id (map fileName)
       (generateBrandReports integer_toString Object_statics acme_table)
       = Inr [''Invoice_Acme.pdf'']
   \<and> renderedRows (itemsByOrderNumber [widget_row, shipping_row]) = [widget_row, shipping_row]
   \<and> subtotal [widget_row, shipping_row] = Fin (733242314331259 / 35184372088832)
   \<and> toFixed integer_toString (subtotal [widget_row, shipping_row]) = ''20.84''
   \<and> totalVat [widget_row, shipping_row] = parseFloat ''4.16''
   \<and> totalGbp [widget_row, shipping_row] = Fin 25"
proof -
  note t = acme_end_to_end [of integer_toString Object_statics]
  from t have g: "generateBrandReports integer_toString Object_statics acme_table =
      Inr [brandReport integer_toString ''Acme'' [(''INV1'', [widget_row, shipping_row])]]"
    by blast
  have k: "Object_keys [(''INV1'', [widget_row, shipping_row])] = [''INV1'']"
    using acme_rows [of integer_toString Object_statics] by blast
  have a: "map_sum id (map brand)
      (generateBrandReports integer_toString Object_statics acme_table) = Inr [''Acme'']"
    unfolding g by (simp add: brandReport_def Let_def)
  have b: "map_sum id (map invoiceNumbers)
      (generateBrandReports integer_toString Object_statics acme_table) = Inr [[''INV1'']]"
    unfolding g by (simp add: brandReport_def Let_def k)
  have c: "map_sum id (map fileName)
      (generateBrandReports integer_toString Object_statics acme_table)
      = Inr [''Invoice_Acme.pdf'']"
    unfolding g by (simp add: brandReport_def Let_def)
  have d: "nadd (parseFloat ''16.67'') (parseFloat ''4.17'')
      = Fin (733242314331259 / 35184372088832)"
    by code_simp
  from t have s: "subtotal [widget_row, shipping_row]
      = nadd (parseFloat ''16.67'') (parseFloat ''4.17'')"
    by blast
  from t a b c s [unfolded d] show ?thesis by blast
qed

end
